theory Spec2Isabelle
  imports Complex_Main "HOL-Library.AList"
begin

section \<open>The record stream\<close>

text \<open>
  The element decoder of \<^verbatim>\<open>pygdsii/elements.py\<close> pulls records from a generator
  \<^verbatim>\<open>recs\<close>. A record carries a tag and its data. The tags are the constants
  \<^verbatim>\<open>GDSII.BOUNDARY\<close>, \<^verbatim>\<open>GDSII.LAYER\<close>, ... named in \<^verbatim>\<open>elements.py\<close>; the eight
  container tags at the end are tags of the format that never start or belong to an
  element.
\<close>

datatype tag =
    BOUNDARY | PATH | SREF | AREF | TEXT | NODE | BOX
  | ELFLAGS | PLEX | LAYER | DATATYPE | XY
  | PATHTYPE | WIDTH | BGNEXTN | ENDEXTN
  | SNAME | STRANS | MAG | ANGLE | COLROW
  | TEXTTYPE | PRESENTATION | STRING | NODETYPE | BOXTYPE
  | PROPATTR | PROPVALUE | ENDEL
  | HEADER | BGNLIB | LIBNAME | UNITS | ENDLIB | BGNSTR | STRNAME | ENDSTR

type_synonym point = "int \<times> int"

text \<open>One item of a record's data (\<^verbatim>\<open>rec.data[0]\<close>), and the data as a whole (\<^verbatim>\<open>rec.data\<close>).\<close>

datatype pyval = IntV int | RealV real | ByteV char | PointV point

text \<open>
  Modelled from the spec: the class \<^verbatim>\<open>RecordData\<close> lives in \<^verbatim>\<open>pygdsii/__init__.py\<close>.
  Its data has one of four shapes (integer list, real list, byte string, point list).
\<close>

datatype rdata =
    IntegerList "int list"
  | RealList "real list"
  | ByteString string
  | PointList "point list"

record RecordData =
  tag :: tag
  data :: rdata

fun items :: "rdata \<Rightarrow> pyval list" where
  "items (IntegerList xs) = map IntV xs"
| "items (RealList xs) = map RealV xs"
| "items (ByteString xs) = map ByteV xs"
| "items (PointList xs) = map PointV xs"

text \<open>
  Errors are values. \<open>FormatError\<close> is the exception \<^verbatim>\<open>elements.py\<close> raises itself, with
  its message. \<open>UnexpectedTag\<close> and \<open>SizeMismatch\<close> are what the record's own
  \<^verbatim>\<open>check_tag\<close> and \<^verbatim>\<open>check_size\<close> raise. The others are exceptions of the Python
  runtime: \<open>StopIteration\<close> from \<^verbatim>\<open>next\<close> on an exhausted generator, \<open>KeyError\<close> from
  a dictionary lookup, \<open>TypeError\<close> and \<open>IndexError\<close> from a built-in applied to the
  wrong object or index.
\<close>

datatype error =
    FormatError string
  | UnexpectedTag
  | SizeMismatch
  | StopIteration
  | KeyError
  | TypeError
  | IndexError

section \<open>Exceptions over mutable state\<close>

text \<open>
  A Python method mutates \<^verbatim>\<open>self\<close> and the generator and either returns or raises; what
  it has mutated before raising stays mutated. A computation is therefore a function from
  the state to an outcome and the state reached.
\<close>

type_synonym ('s, 'a) exn = "'s \<Rightarrow> (error + 'a) \<times> 's"

definition returnE :: "'a \<Rightarrow> ('s, 'a) exn" where
  "returnE x = (\<lambda>s. (Inr x, s))"

definition raiseE :: "error \<Rightarrow> ('s, 'a) exn" where
  "raiseE e = (\<lambda>s. (Inl e, s))"

definition liftE :: "error + 'a \<Rightarrow> ('s, 'a) exn" where
  "liftE r = (\<lambda>s. (r, s))"

definition bindE :: "('s, 'a) exn \<Rightarrow> ('a \<Rightarrow> ('s, 'b) exn) \<Rightarrow> ('s, 'b) exn" where
  "bindE m f = (\<lambda>s. case m s of (Inl e, s') \<Rightarrow> (Inl e, s') | (Inr x, s') \<Rightarrow> f x s')"

text \<open>The state of a method call: the object \<^verbatim>\<open>self\<close> and what is left of \<^verbatim>\<open>recs\<close>.\<close>

type_synonym 'e call = "'e \<times> RecordData list"

definition next_rec :: "('e call, RecordData) exn" where
  "next_rec = (\<lambda>(self, recs). case recs of
       [] \<Rightarrow> (Inl StopIteration, (self, []))
     | r # rs \<Rightarrow> (Inr r, (self, rs)))"

definition update_self :: "('e \<Rightarrow> 'e) \<Rightarrow> ('e call, unit) exn" where
  "update_self f = (\<lambda>(self, recs). (Inr (), (f self, recs)))"

subsection \<open>The record interface\<close>

text \<open>
  Modelled from the spec: \<^verbatim>\<open>RecordData.check_tag\<close> fails if the tag does not equal the
  expected one.
\<close>

definition check_tag :: "RecordData \<Rightarrow> tag \<Rightarrow> error + unit" where
  "check_tag r t = (if tag r = t then Inr () else Inl UnexpectedTag)"

text \<open>
  Modelled from the spec: \<^verbatim>\<open>RecordData.check_size\<close> fails if the data length does not
  equal the expected count.
\<close>

definition check_size :: "RecordData \<Rightarrow> nat \<Rightarrow> error + unit" where
  "check_size r n = (if length (items (data r)) = n then Inr () else Inl SizeMismatch)"

text \<open>\<^verbatim>\<open>rec.data[0]\<close>: Python raises IndexError on empty data.\<close>

definition data0 :: "RecordData \<Rightarrow> error + pyval" where
  "data0 r = (case items (data r) of [] \<Rightarrow> Inl IndexError | v # _ \<Rightarrow> Inr v)"

text \<open>
  Modelled from the spec: \<^verbatim>\<open>RecordData.points\<close>, the point list of a record with
  coordinate data; it is not valid on another shape of data.
\<close>

definition record_points :: "RecordData \<Rightarrow> error + point list" where
  "record_points r = (case data r of PointList ps \<Rightarrow> Inr ps | _ \<Rightarrow> Inl TypeError)"

text \<open>
  Modelled from the spec: \<^verbatim>\<open>_ignore_record\<close> of \<^verbatim>\<open>pygdsii/__init__.py\<close>: a record
  with the given tag is skipped and the next one is returned, another record is returned
  as it is.
\<close>

definition ignore_record :: "RecordData \<Rightarrow> tag \<Rightarrow> ('e call, RecordData) exn" where
  "ignore_record lastrec t = (if tag lastrec = t then next_rec else returnE lastrec)"

text \<open>
  Modelled from the spec: a \<^verbatim>\<open>RecordData\<close> exposes its tag, its data, the two checks
  and the point list. It is no iterator, so the built-in \<^verbatim>\<open>next\<close> applied to a record
  (not to the generator) raises TypeError.
\<close>

definition next_of_record :: "RecordData \<Rightarrow> error + RecordData" where
  "next_of_record r = Inl TypeError"

section \<open>Elements\<close>

text \<open>
  \<^verbatim>\<open>self._properties\<close> is what the caller passes as \<^verbatim>\<open>properties\<close>, and the empty
  Python list \<^verbatim>\<open>[]\<close> by default; a caller may pass a dictionary.
\<close>

datatype properties =
    PyList "rdata list"
  | PyDict "(pyval \<times> rdata) list"

text \<open>\<^verbatim>\<open>self._properties[propattr] = value\<close>, on a list and on a dictionary.\<close>

fun setitem :: "properties \<Rightarrow> pyval \<Rightarrow> rdata \<Rightarrow> error + properties" where
  "setitem (PyList xs) (IntV i) v =
     (if 0 \<le> i \<and> i < int (length xs) then Inr (PyList (xs[nat i := v]))
      else if - int (length xs) \<le> i \<and> i < 0
        then Inr (PyList (xs[nat (int (length xs) + i) := v]))
      else Inl IndexError)"
| "setitem (PyList xs) _ v = Inl TypeError"
| "setitem (PyDict kvs) k v = Inr (PyDict (AList.update k v kvs))"

text \<open>The classes, with the slots each one adds to its base class.\<close>

record ElementBase =
  properties :: properties

record ElementWithLayer = ElementBase +
  layer :: pyval

record ElementWithLayerAndDataType = ElementWithLayer +
  data_type :: pyval

record BoundaryElement = ElementWithLayerAndDataType +
  points :: "point list"

record PathElement = ElementWithLayerAndDataType +
  path_type :: "pyval option"
  width :: "pyval option"
  bgn_extn :: "pyval option"
  end_extn :: "pyval option"
  points :: "point list"

record SRefElement = ElementBase +
  struct_name :: rdata
  strans :: "rdata option"
  mag :: "pyval option"
  angle :: "pyval option"
  points :: "point list"

record ARefElement = SRefElement +
  cols :: pyval
  rows :: pyval

record TextElement = ElementWithLayer +
  text_type :: pyval
  presentation :: "rdata option"
  path_type :: "pyval option"
  width :: "pyval option"
  strans :: "rdata option"
  mag :: "pyval option"
  angle :: "pyval option"
  points :: "point list"
  string :: rdata

record NodeElement = ElementWithLayer +
  node_type :: pyval
  points :: "point list"

record BoxElement = ElementWithLayer +
  box_type :: pyval
  points :: "point list"


text \<open>The keyword arguments of a constructor; \<open>None\<close> is a keyword not passed.\<close>

record kwargs =
  kw_properties :: "properties option"
  kw_layer :: "pyval option"
  kw_data_type :: "pyval option"
  kw_points :: "point list option"
  kw_path_type :: "pyval option"
  kw_width :: "pyval option"
  kw_bgn_extn :: "pyval option"
  kw_end_extn :: "pyval option"
  kw_struct_name :: "rdata option"
  kw_strans :: "rdata option"
  kw_mag :: "pyval option"
  kw_angle :: "pyval option"
  kw_cols :: "pyval option"
  kw_rows :: "pyval option"
  kw_text_type :: "pyval option"
  kw_presentation :: "rdata option"
  kw_string :: "rdata option"
  kw_node_type :: "pyval option"
  kw_box_type :: "pyval option"

definition no_kwargs :: kwargs where
  "no_kwargs = \<lparr>kw_properties = None, kw_layer = None, kw_data_type = None,
     kw_points = None, kw_path_type = None, kw_width = None, kw_bgn_extn = None,
     kw_end_extn = None, kw_struct_name = None, kw_strans = None, kw_mag = None,
     kw_angle = None, kw_cols = None, kw_rows = None, kw_text_type = None,
     kw_presentation = None, kw_string = None, kw_node_type = None, kw_box_type = None\<rparr>"

text \<open>\<^verbatim>\<open>kwargs.get(key, default)\<close>; \<^verbatim>\<open>kwargs.get(key)\<close> is the option itself.\<close>

definition kwargs_get :: "'a option \<Rightarrow> 'a \<Rightarrow> 'a" where
  "kwargs_get v d = (case v of None \<Rightarrow> d | Some x \<Rightarrow> x)"

subsection \<open>Constructors\<close>

text \<open>
  Each \<^verbatim>\<open>__init__\<close> calls the one of its base class and then sets its own slots. No
  constructor looks at the points it is given (\<^verbatim>\<open># TODO check if passed points are valid\<close>).
\<close>

definition ElementBase_init :: "kwargs \<Rightarrow> ElementBase" where
  "ElementBase_init kw = \<lparr>properties = kwargs_get (kw_properties kw) (PyList [])\<rparr>"

definition ElementWithLayer_init :: "kwargs \<Rightarrow> ElementWithLayer" where
  "ElementWithLayer_init kw =
     ElementBase.extend (ElementBase_init kw)
       (ElementWithLayer.fields (kwargs_get (kw_layer kw) (IntV 0)))"

definition ElementWithLayerAndDataType_init :: "kwargs \<Rightarrow> ElementWithLayerAndDataType" where
  "ElementWithLayerAndDataType_init kw =
     ElementWithLayer.extend (ElementWithLayer_init kw)
       (ElementWithLayerAndDataType.fields (kwargs_get (kw_data_type kw) (IntV 0)))"

definition BoundaryElement_init :: "kwargs \<Rightarrow> BoundaryElement" where
  "BoundaryElement_init kw =
     ElementWithLayerAndDataType.extend (ElementWithLayerAndDataType_init kw)
       (BoundaryElement.fields (kwargs_get (kw_points kw) []))"

definition PathElement_init :: "kwargs \<Rightarrow> PathElement" where
  "PathElement_init kw =
     ElementWithLayerAndDataType.extend (ElementWithLayerAndDataType_init kw)
       (PathElement.fields (kw_path_type kw) (kw_width kw) (kw_bgn_extn kw) (kw_end_extn kw)
          (kwargs_get (kw_points kw) []))"

definition SRefElement_init :: "kwargs \<Rightarrow> SRefElement" where
  "SRefElement_init kw =
     ElementBase.extend (ElementBase_init kw)
       (SRefElement.fields (kwargs_get (kw_struct_name kw) (ByteString []))
          (kw_strans kw) (kw_mag kw) (kw_angle kw) (kwargs_get (kw_points kw) []))"

definition ARefElement_init :: "kwargs \<Rightarrow> ARefElement" where
  "ARefElement_init kw =
     SRefElement.extend (SRefElement_init kw)
       (ARefElement.fields (kwargs_get (kw_cols kw) (IntV 1)) (kwargs_get (kw_rows kw) (IntV 1)))"

definition TextElement_init :: "kwargs \<Rightarrow> TextElement" where
  "TextElement_init kw =
     ElementWithLayer.extend (ElementWithLayer_init kw)
       (TextElement.fields (kwargs_get (kw_text_type kw) (IntV 0)) (kw_presentation kw)
          (kw_path_type kw) (kw_width kw) (kw_strans kw) (kw_mag kw) (kw_angle kw)
          (kwargs_get (kw_points kw) []) (kwargs_get (kw_string kw) (ByteString [])))"

definition NodeElement_init :: "kwargs \<Rightarrow> NodeElement" where
  "NodeElement_init kw =
     ElementWithLayer.extend (ElementWithLayer_init kw)
       (NodeElement.fields (kwargs_get (kw_node_type kw) (IntV 0)) (kwargs_get (kw_points kw) []))"

definition BoxElement_init :: "kwargs \<Rightarrow> BoxElement" where
  "BoxElement_init kw =
     ElementWithLayer.extend (ElementWithLayer_init kw)
       (BoxElement.fields (kwargs_get (kw_box_type kw) (IntV 0)) (kwargs_get (kw_points kw) []))"


section \<open>Decoding\<close>

subsection \<open>Shared prefix and trailer\<close>

text \<open>\<^verbatim>\<open>ElementBase._read_start\<close>: skips ELFLAGS and PLEX and returns the next record.\<close>

definition ElementBase_read_start :: "('e call, RecordData) exn" where
  "ElementBase_read_start =
     bindE next_rec (\<lambda>first.
     bindE (ignore_record first ELFLAGS) (\<lambda>rec.
     bindE (ignore_record rec PLEX) (\<lambda>rec.
     returnE rec)))"

text \<open>
  The \<^verbatim>\<open>PROPATTR\<close> branch of the loop of \<^verbatim>\<open>ElementBase._read_rest\<close>. The source
  writes \<^verbatim>\<open>rec = next(rec)\<close>, on the record and not on \<^verbatim>\<open>recs\<close>; nothing in this branch
  reads the generator, so it is a computation on \<^verbatim>\<open>self\<close> alone.
\<close>

definition read_rest_PROPATTR :: "RecordData \<Rightarrow> ('a ElementBase_scheme, unit) exn" where
  "read_rest_PROPATTR rec =
     bindE (liftE (check_size rec 1)) (\<lambda>_.
     bindE (liftE (data0 rec)) (\<lambda>propattr.
     bindE (liftE (next_of_record rec)) (\<lambda>rec.
     bindE (liftE (check_tag rec PROPVALUE)) (\<lambda>_.
     (\<lambda>self. case setitem (properties self) propattr (data rec) of
         Inl e \<Rightarrow> (Inl e, self)
       | Inr p \<Rightarrow> (Inr (), self\<lparr>properties := p\<rparr>))))))"

text \<open>
  \<^verbatim>\<open>ElementBase._read_rest\<close>: the \<^verbatim>\<open>while True\<close> loop takes one record from the
  generator in each round, so it is a recursion on what is left of the generator.
\<close>

fun ElementBase_read_rest :: "('a ElementBase_scheme call, unit) exn" where
  "ElementBase_read_rest (self, []) = (Inl StopIteration, (self, []))"
| "ElementBase_read_rest (self, rec # recs) =
     (if tag rec = PROPATTR then
        (case read_rest_PROPATTR rec self of
           (Inl e, self') \<Rightarrow> (Inl e, (self', recs))
         | (Inr _, self') \<Rightarrow> ElementBase_read_rest (self', recs))
      else if tag rec = ENDEL then (Inr (), (self, recs))
      else (Inl (FormatError ''unexpected tag where PROPATTR or ENDEL are expected''),
            (self, recs)))"

text \<open>\<^verbatim>\<open>ElementWithLayer._read_start\<close> and \<^verbatim>\<open>ElementWithLayerAndDataType._read_start\<close>.\<close>

definition ElementWithLayer_read_start :: "('a ElementWithLayer_scheme call, unit) exn" where
  "ElementWithLayer_read_start =
     bindE ElementBase_read_start (\<lambda>rec.
     bindE (liftE (check_tag rec LAYER)) (\<lambda>_.
     bindE (liftE (check_size rec 1)) (\<lambda>_.
     bindE (liftE (data0 rec)) (\<lambda>v.
     update_self (\<lambda>self. self\<lparr>layer := v\<rparr>)))))"

definition ElementWithLayerAndDataType_read_start ::
    "('a ElementWithLayerAndDataType_scheme call, unit) exn" where
  "ElementWithLayerAndDataType_read_start =
     bindE ElementWithLayer_read_start (\<lambda>_.
     bindE next_rec (\<lambda>rec.
     bindE (liftE (check_tag rec DATATYPE)) (\<lambda>_.
     bindE (liftE (check_size rec 1)) (\<lambda>_.
     bindE (liftE (data0 rec)) (\<lambda>v.
     update_self (\<lambda>self. self\<lparr>data_type := v\<rparr>))))))"

text \<open>Reading a slot of \<^verbatim>\<open>self\<close>, as in \<^verbatim>\<open>len(self._points)\<close>.\<close>

definition get_self :: "('e call, 'e) exn" where
  "get_self = (\<lambda>(self, recs). (Inr self, (self, recs)))"

subsection \<open>The grammar of each element\<close>

definition BoundaryElement_read_element :: "(BoundaryElement call, unit) exn" where
  "BoundaryElement_read_element =
     bindE ElementWithLayerAndDataType_read_start (\<lambda>_.
     bindE next_rec (\<lambda>rec.
     bindE (liftE (check_tag rec XY)) (\<lambda>_.
     bindE (liftE (record_points rec)) (\<lambda>ps.
     bindE (update_self (\<lambda>self. self\<lparr>BoundaryElement.points := ps\<rparr>)) (\<lambda>_.
     bindE get_self (\<lambda>self.
     bindE (if length (BoundaryElement.points self) < 4
            then raiseE (FormatError ''less then 4 points in BOUNDARY'') else returnE ()) (\<lambda>_.
     ElementBase_read_rest)))))))"

definition PathElement_read_element :: "(PathElement call, unit) exn" where
  "PathElement_read_element =
     bindE ElementWithLayerAndDataType_read_start (\<lambda>_.
     bindE next_rec (\<lambda>rec.
     bindE (if tag rec = PATHTYPE then
              bindE (liftE (check_size rec 1)) (\<lambda>_.
              bindE (liftE (data0 rec)) (\<lambda>v.
              bindE (update_self (\<lambda>self. self\<lparr>PathElement.path_type := Some v\<rparr>)) (\<lambda>_.
              next_rec)))
            else returnE rec) (\<lambda>rec.
     bindE (if tag rec = WIDTH then
              bindE (liftE (check_size rec 1)) (\<lambda>_.
              bindE (liftE (data0 rec)) (\<lambda>v.
              bindE (update_self (\<lambda>self. self\<lparr>PathElement.width := Some v\<rparr>)) (\<lambda>_.
              next_rec)))
            else returnE rec) (\<lambda>rec.
     bindE (if tag rec = BGNEXTN then
              bindE (liftE (check_size rec 1)) (\<lambda>_.
              bindE (liftE (data0 rec)) (\<lambda>v.
              bindE (update_self (\<lambda>self. self\<lparr>bgn_extn := Some v\<rparr>)) (\<lambda>_.
              next_rec)))
            else returnE rec) (\<lambda>rec.
     bindE (if tag rec = ENDEXTN then
              bindE (liftE (check_size rec 1)) (\<lambda>_.
              bindE (liftE (data0 rec)) (\<lambda>v.
              bindE (update_self (\<lambda>self. self\<lparr>end_extn := Some v\<rparr>)) (\<lambda>_.
              next_rec)))
            else returnE rec) (\<lambda>rec.
     bindE (liftE (check_tag rec XY)) (\<lambda>_.
     bindE (liftE (record_points rec)) (\<lambda>ps.
     bindE (update_self (\<lambda>self. self\<lparr>PathElement.points := ps\<rparr>)) (\<lambda>_.
     bindE get_self (\<lambda>self.
     bindE (if length (PathElement.points self) < 2
            then raiseE (FormatError ''less then 2 points in PATH'') else returnE ()) (\<lambda>_.
     ElementBase_read_rest)))))))))))"

text \<open>
  \<^verbatim>\<open>SRefElement._read_start\<close>, inherited by \<^verbatim>\<open>ARefElement\<close>: MAG and ANGLE are looked
  for only inside the STRANS branch.
\<close>

definition SRefElement_read_start :: "('a SRefElement_scheme call, RecordData) exn" where
  "SRefElement_read_start =
     bindE ElementBase_read_start (\<lambda>rec.
     bindE (liftE (check_tag rec SNAME)) (\<lambda>_.
     bindE (update_self (\<lambda>self. self\<lparr>struct_name := data rec\<rparr>)) (\<lambda>_.
     bindE next_rec (\<lambda>rec.
     bindE (if tag rec = STRANS then
              bindE (update_self (\<lambda>self. self\<lparr>SRefElement.strans := Some (data rec)\<rparr>)) (\<lambda>_.
              bindE next_rec (\<lambda>rec.
              bindE (if tag rec = MAG then
                       bindE (liftE (check_size rec 1)) (\<lambda>_.
                       bindE (liftE (data0 rec)) (\<lambda>v.
                       bindE (update_self (\<lambda>self. self\<lparr>SRefElement.mag := Some v\<rparr>)) (\<lambda>_.
                       next_rec)))
                     else returnE rec) (\<lambda>rec.
              bindE (if tag rec = ANGLE then
                       bindE (liftE (check_size rec 1)) (\<lambda>_.
                       bindE (liftE (data0 rec)) (\<lambda>v.
                       bindE (update_self (\<lambda>self. self\<lparr>SRefElement.angle := Some v\<rparr>)) (\<lambda>_.
                       next_rec)))
                     else returnE rec) (\<lambda>rec.
              returnE rec))))
            else returnE rec) (\<lambda>rec.
     returnE rec)))))"

definition SRefElement_read_element :: "(SRefElement call, unit) exn" where
  "SRefElement_read_element =
     bindE SRefElement_read_start (\<lambda>rec.
     bindE (liftE (check_tag rec XY)) (\<lambda>_.
     bindE (liftE (record_points rec)) (\<lambda>ps.
     bindE (update_self (\<lambda>self. self\<lparr>SRefElement.points := ps\<rparr>)) (\<lambda>_.
     bindE get_self (\<lambda>self.
     bindE (if length (SRefElement.points self) \<noteq> 1
            then raiseE (FormatError ''SREF should contain 1 point'') else returnE ()) (\<lambda>_.
     ElementBase_read_rest))))))"

text \<open>\<^verbatim>\<open>self._cols, self._rows = rec.data\<close>: unpacking anything but two items raises.\<close>

definition unpack2 :: "RecordData \<Rightarrow> error + pyval \<times> pyval" where
  "unpack2 r = (case items (data r) of [c, w] \<Rightarrow> Inr (c, w) | _ \<Rightarrow> Inl TypeError)"

definition ARefElement_read_element :: "(ARefElement call, unit) exn" where
  "ARefElement_read_element =
     bindE SRefElement_read_start (\<lambda>rec.
     bindE (liftE (check_tag rec COLROW)) (\<lambda>_.
     bindE (liftE (check_size rec 2)) (\<lambda>_.
     bindE (liftE (unpack2 rec)) (\<lambda>cr.
     bindE (update_self (\<lambda>self. self\<lparr>cols := fst cr, rows := snd cr\<rparr>)) (\<lambda>_.
     bindE next_rec (\<lambda>rec.
     bindE (liftE (check_tag rec XY)) (\<lambda>_.
     bindE (liftE (record_points rec)) (\<lambda>ps.
     bindE (update_self (\<lambda>self. self\<lparr>SRefElement.points := ps\<rparr>)) (\<lambda>_.
     bindE get_self (\<lambda>self.
     bindE (if length (SRefElement.points self) \<noteq> 3
            then raiseE (FormatError ''AREF should contain 3 points'') else returnE ()) (\<lambda>_.
     ElementBase_read_rest)))))))))))"

definition TextElement_read_element :: "(TextElement call, unit) exn" where
  "TextElement_read_element =
     bindE ElementWithLayer_read_start (\<lambda>_.
     bindE next_rec (\<lambda>rec.
     bindE (liftE (check_tag rec TEXTTYPE)) (\<lambda>_.
     bindE (liftE (check_size rec 1)) (\<lambda>_.
     bindE (liftE (data0 rec)) (\<lambda>v.
     bindE (update_self (\<lambda>self. self\<lparr>text_type := v\<rparr>)) (\<lambda>_.
     bindE next_rec (\<lambda>rec.
     bindE (if tag rec = PRESENTATION then
              bindE (update_self (\<lambda>self. self\<lparr>presentation := Some (data rec)\<rparr>)) (\<lambda>_.
              next_rec)
            else returnE rec) (\<lambda>rec.
     bindE (if tag rec = PATHTYPE then
              bindE (liftE (check_size rec 1)) (\<lambda>_.
              bindE (liftE (data0 rec)) (\<lambda>v.
              bindE (update_self (\<lambda>self. self\<lparr>TextElement.path_type := Some v\<rparr>)) (\<lambda>_.
              next_rec)))
            else returnE rec) (\<lambda>rec.
     bindE (if tag rec = WIDTH then
              bindE (liftE (check_size rec 1)) (\<lambda>_.
              bindE (liftE (data0 rec)) (\<lambda>v.
              bindE (update_self (\<lambda>self. self\<lparr>TextElement.width := Some v\<rparr>)) (\<lambda>_.
              next_rec)))
            else returnE rec) (\<lambda>rec.
     bindE (if tag rec = STRANS then
              bindE (update_self (\<lambda>self. self\<lparr>TextElement.strans := Some (data rec)\<rparr>)) (\<lambda>_.
              bindE next_rec (\<lambda>rec.
              bindE (if tag rec = MAG then
                       bindE (liftE (check_size rec 1)) (\<lambda>_.
                       bindE (liftE (data0 rec)) (\<lambda>v.
                       bindE (update_self (\<lambda>self. self\<lparr>TextElement.mag := Some v\<rparr>)) (\<lambda>_.
                       next_rec)))
                     else returnE rec) (\<lambda>rec.
              bindE (if tag rec = ANGLE then
                       bindE (liftE (check_size rec 1)) (\<lambda>_.
                       bindE (liftE (data0 rec)) (\<lambda>v.
                       bindE (update_self (\<lambda>self. self\<lparr>TextElement.angle := Some v\<rparr>)) (\<lambda>_.
                       next_rec)))
                     else returnE rec) (\<lambda>rec.
              returnE rec))))
            else returnE rec) (\<lambda>rec.
     bindE (liftE (check_tag rec XY)) (\<lambda>_.
     bindE (liftE (record_points rec)) (\<lambda>ps.
     bindE (update_self (\<lambda>self. self\<lparr>TextElement.points := ps\<rparr>)) (\<lambda>_.
     bindE get_self (\<lambda>self.
     bindE (if length (TextElement.points self) \<noteq> 1
            then raiseE (FormatError ''TEXT should contain 1 point'') else returnE ()) (\<lambda>_.
     bindE next_rec (\<lambda>rec.
     bindE (liftE (check_tag rec STRING)) (\<lambda>_.
     bindE (update_self (\<lambda>self. self\<lparr>string := data rec\<rparr>)) (\<lambda>_.
     ElementBase_read_rest)))))))))))))))))))"

definition NodeElement_read_element :: "(NodeElement call, unit) exn" where
  "NodeElement_read_element =
     bindE ElementWithLayer_read_start (\<lambda>_.
     bindE next_rec (\<lambda>rec.
     bindE (liftE (check_tag rec NODETYPE)) (\<lambda>_.
     bindE (liftE (check_size rec 1)) (\<lambda>_.
     bindE (liftE (data0 rec)) (\<lambda>v.
     bindE (update_self (\<lambda>self. self\<lparr>node_type := v\<rparr>)) (\<lambda>_.
     bindE next_rec (\<lambda>rec.
     bindE (liftE (check_tag rec XY)) (\<lambda>_.
     bindE (liftE (record_points rec)) (\<lambda>ps.
     bindE (update_self (\<lambda>self. self\<lparr>NodeElement.points := ps\<rparr>)) (\<lambda>_.
     bindE get_self (\<lambda>self.
     bindE (if length (NodeElement.points self) < 1
            then raiseE (FormatError ''NODE should contain at least 1 point'')
            else returnE ()) (\<lambda>_.
     ElementBase_read_rest))))))))))))"

definition BoxElement_read_element :: "(BoxElement call, unit) exn" where
  "BoxElement_read_element =
     bindE ElementWithLayer_read_start (\<lambda>_.
     bindE next_rec (\<lambda>rec.
     bindE (liftE (check_tag rec BOXTYPE)) (\<lambda>_.
     bindE (liftE (check_size rec 1)) (\<lambda>_.
     bindE (liftE (data0 rec)) (\<lambda>v.
     bindE (update_self (\<lambda>self. self\<lparr>box_type := v\<rparr>)) (\<lambda>_.
     bindE next_rec (\<lambda>rec.
     bindE (liftE (check_tag rec XY)) (\<lambda>_.
     bindE (liftE (record_points rec)) (\<lambda>ps.
     bindE (update_self (\<lambda>self. self\<lparr>BoxElement.points := ps\<rparr>)) (\<lambda>_.
     bindE get_self (\<lambda>self.
     bindE (if length (BoxElement.points self) \<noteq> 5
            then raiseE (FormatError ''BOX should contain 5 points'') else returnE ()) (\<lambda>_.
     ElementBase_read_rest))))))))))))"

subsection \<open>The dispatcher\<close>

datatype element_class =
    BoundaryElement_class | PathElement_class | SRefElement_class | ARefElement_class
  | TextElement_class | NodeElement_class | BoxElement_class

datatype element =
    Boundary BoundaryElement
  | Path PathElement
  | SRef SRefElement
  | ARef ARefElement
  | Text TextElement
  | Node NodeElement
  | Box BoxElement

text \<open>\<^verbatim>\<open>ElementBase._tag_to_class_map\<close>, a dictionary with seven keys.\<close>

definition tag_to_class_map :: "tag \<Rightarrow> element_class option" where
  "tag_to_class_map = map_of
     [(BOUNDARY, BoundaryElement_class),
      (PATH, PathElement_class),
      (SREF, SRefElement_class),
      (AREF, ARefElement_class),
      (TEXT, TextElement_class),
      (NODE, NodeElement_class),
      (BOX, BoxElement_class)]"

text \<open>\<^verbatim>\<open>element_class()\<close>: the constructor of the class, called with no keyword.\<close>

fun new_element :: "element_class \<Rightarrow> element" where
  "new_element BoundaryElement_class = Boundary (BoundaryElement_init no_kwargs)"
| "new_element PathElement_class = Path (PathElement_init no_kwargs)"
| "new_element SRefElement_class = SRef (SRefElement_init no_kwargs)"
| "new_element ARefElement_class = ARef (ARefElement_init no_kwargs)"
| "new_element TextElement_class = Text (TextElement_init no_kwargs)"
| "new_element NodeElement_class = Node (NodeElement_init no_kwargs)"
| "new_element BoxElement_class = Box (BoxElement_init no_kwargs)"

text \<open>\<^verbatim>\<open>new_element.read_element(recs)\<close>: the method of the object's class.\<close>

fun read_element :: "(element call, unit) exn" where
  "read_element (Boundary e, recs) =
     (case BoundaryElement_read_element (e, recs) of (r, (e', recs')) \<Rightarrow> (r, (Boundary e', recs')))"
| "read_element (Path e, recs) =
     (case PathElement_read_element (e, recs) of (r, (e', recs')) \<Rightarrow> (r, (Path e', recs')))"
| "read_element (SRef e, recs) =
     (case SRefElement_read_element (e, recs) of (r, (e', recs')) \<Rightarrow> (r, (SRef e', recs')))"
| "read_element (ARef e, recs) =
     (case ARefElement_read_element (e, recs) of (r, (e', recs')) \<Rightarrow> (r, (ARef e', recs')))"
| "read_element (Text e, recs) =
     (case TextElement_read_element (e, recs) of (r, (e', recs')) \<Rightarrow> (r, (Text e', recs')))"
| "read_element (Node e, recs) =
     (case NodeElement_read_element (e, recs) of (r, (e', recs')) \<Rightarrow> (r, (Node e', recs')))"
| "read_element (Box e, recs) =
     (case BoxElement_read_element (e, recs) of (r, (e', recs')) \<Rightarrow> (r, (Box e', recs')))"

text \<open>A class object is true in a Python condition.\<close>

definition truth_value :: "element_class \<Rightarrow> bool" where
  "truth_value c = True"

text \<open>
  \<^verbatim>\<open>ElementBase.load(recs, lastrec)\<close>. The dictionary is read with
  \<^verbatim>\<open>_tag_to_class_map[lastrec.tag]\<close>, which raises KeyError on a tag that is no key. The
  state is the generator; the new element is returned on success only.
\<close>

definition load :: "RecordData \<Rightarrow> (RecordData list, element) exn" where
  "load lastrec = (\<lambda>recs.
     case tag_to_class_map (tag lastrec) of
       None \<Rightarrow> (Inl KeyError, recs)
     | Some element_class \<Rightarrow>
         if \<not> truth_value element_class
         then (Inl (FormatError ''unexpected element tag''), recs)
         else (case read_element (new_element element_class, recs) of
                 (Inl e, (el, recs')) \<Rightarrow> (Inl e, recs')
               | (Inr _, (el, recs')) \<Rightarrow> (Inr el, recs')))"


section \<open>Streams and constraints of the specification\<close>

text \<open>
  The definitions of this section are not code of the decoder. They build the record
  streams the properties below speak about, and state the point-count table.
\<close>

definition opt_record :: "tag \<Rightarrow> rdata option \<Rightarrow> RecordData list" where
  "opt_record t d = (case d of None \<Rightarrow> [] | Some x \<Rightarrow> [\<lparr>tag = t, data = x\<rparr>])"

text \<open>The records that may precede the fields of any element: ELFLAGS, then PLEX.\<close>

definition common_prefix :: "rdata option \<Rightarrow> rdata option \<Rightarrow> RecordData list" where
  "common_prefix fl px = opt_record ELFLAGS fl @ opt_record PLEX px"

definition int_record :: "tag \<Rightarrow> int \<Rightarrow> RecordData" where
  "int_record t v = \<lparr>tag = t, data = IntegerList [v]\<rparr>"

definition real_record :: "tag \<Rightarrow> real \<Rightarrow> RecordData" where
  "real_record t v = \<lparr>tag = t, data = RealList [v]\<rparr>"

definition xy_record :: "point list \<Rightarrow> RecordData" where
  "xy_record pts = \<lparr>tag = XY, data = PointList pts\<rparr>"

definition opt_int :: "tag \<Rightarrow> int option \<Rightarrow> RecordData list" where
  "opt_int t v = (case v of None \<Rightarrow> [] | Some x \<Rightarrow> [int_record t x])"

definition opt_real :: "tag \<Rightarrow> real option \<Rightarrow> RecordData list" where
  "opt_real t v = (case v of None \<Rightarrow> [] | Some x \<Rightarrow> [real_record t x])"

text \<open>
  A transform block is absent, or a STRANS record followed by an optional MAG and an
  optional ANGLE record.
\<close>

type_synonym transform = "rdata \<times> real option \<times> real option"

definition transform_block :: "transform option \<Rightarrow> RecordData list" where
  "transform_block tb = (case tb of
       None \<Rightarrow> []
     | Some (s, m, a) \<Rightarrow> \<lparr>tag = STRANS, data = s\<rparr> # opt_real MAG m @ opt_real ANGLE a)"

definition tb_strans :: "transform option \<Rightarrow> rdata option" where
  "tb_strans tb = (case tb of None \<Rightarrow> None | Some (s, m, a) \<Rightarrow> Some s)"

definition tb_mag :: "transform option \<Rightarrow> pyval option" where
  "tb_mag tb = (case tb of None \<Rightarrow> None | Some (s, m, a) \<Rightarrow> map_option RealV m)"

definition tb_angle :: "transform option \<Rightarrow> pyval option" where
  "tb_angle tb = (case tb of None \<Rightarrow> None | Some (s, m, a) \<Rightarrow> map_option RealV a)"

text \<open>The fields of each element, in the order of its grammar, after the start record.\<close>

definition boundary_stream :: "int \<Rightarrow> int \<Rightarrow> point list \<Rightarrow> RecordData list" where
  "boundary_stream l d pts = [int_record LAYER l, int_record DATATYPE d, xy_record pts]"

definition path_stream ::
    "int \<Rightarrow> int \<Rightarrow> int option \<Rightarrow> int option \<Rightarrow> int option \<Rightarrow> int option \<Rightarrow> point list
     \<Rightarrow> RecordData list" where
  "path_stream l d pt w be ee pts =
     [int_record LAYER l, int_record DATATYPE d] @ opt_int PATHTYPE pt @ opt_int WIDTH w
     @ opt_int BGNEXTN be @ opt_int ENDEXTN ee @ [xy_record pts]"

definition sref_stream :: "string \<Rightarrow> transform option \<Rightarrow> point list \<Rightarrow> RecordData list" where
  "sref_stream name tb pts =
     [\<lparr>tag = SNAME, data = ByteString name\<rparr>] @ transform_block tb @ [xy_record pts]"

definition aref_stream ::
    "string \<Rightarrow> transform option \<Rightarrow> int \<Rightarrow> int \<Rightarrow> point list \<Rightarrow> RecordData list" where
  "aref_stream name tb c w pts =
     [\<lparr>tag = SNAME, data = ByteString name\<rparr>] @ transform_block tb
     @ [\<lparr>tag = COLROW, data = IntegerList [c, w]\<rparr>, xy_record pts]"

definition text_stream ::
    "int \<Rightarrow> int \<Rightarrow> rdata option \<Rightarrow> int option \<Rightarrow> int option \<Rightarrow> transform option
     \<Rightarrow> point list \<Rightarrow> string \<Rightarrow> RecordData list" where
  "text_stream l tt pres pt w tb pts str =
     [int_record LAYER l, int_record TEXTTYPE tt] @ opt_record PRESENTATION pres
     @ opt_int PATHTYPE pt @ opt_int WIDTH w @ transform_block tb
     @ [xy_record pts, \<lparr>tag = STRING, data = ByteString str\<rparr>]"

definition node_stream :: "int \<Rightarrow> int \<Rightarrow> point list \<Rightarrow> RecordData list" where
  "node_stream l nt pts = [int_record LAYER l, int_record NODETYPE nt, xy_record pts]"

definition box_stream :: "int \<Rightarrow> int \<Rightarrow> point list \<Rightarrow> RecordData list" where
  "box_stream l bt pts = [int_record LAYER l, int_record BOXTYPE bt, xy_record pts]"


text \<open>
  The optional fields of an element are slots in a fixed order, each filled or not. A
  record arrives late when its own slot or a later one is already filled, so it is a
  repeated field or a field out of its order. MAG and ANGLE lack their STRANS when no
  transform block was opened.
\<close>

definition present :: "'a option \<Rightarrow> bool" where
  "present v = (case v of None \<Rightarrow> False | Some x \<Rightarrow> True)"

definition arrives_late :: "tag \<Rightarrow> (tag \<times> bool) list \<Rightarrow> bool" where
  "arrives_late t slots = list_ex snd (dropWhile (\<lambda>s. fst s \<noteq> t) slots)"

definition lacks_strans :: "tag \<Rightarrow> transform option \<Rightarrow> bool" where
  "lacks_strans t tb = ((t = MAG \<or> t = ANGLE) \<and> tb = None)"

definition path_slots ::
    "int option \<Rightarrow> int option \<Rightarrow> int option \<Rightarrow> int option \<Rightarrow> (tag \<times> bool) list" where
  "path_slots pt w be ee =
     [(PATHTYPE, present pt), (WIDTH, present w), (BGNEXTN, present be), (ENDEXTN, present ee)]"

definition transform_slots :: "transform option \<Rightarrow> (tag \<times> bool) list" where
  "transform_slots tb =
     [(STRANS, present tb), (MAG, present (tb_mag tb)), (ANGLE, present (tb_angle tb))]"

definition text_slots ::
    "rdata option \<Rightarrow> int option \<Rightarrow> int option \<Rightarrow> transform option \<Rightarrow> (tag \<times> bool) list" where
  "text_slots pres pt w tb =
     [(PRESENTATION, present pres), (PATHTYPE, present pt), (WIDTH, present w)]
     @ transform_slots tb"

section \<open>Evaluating the decoder\<close>

named_theorems exn_simps

lemma bindE_returnE [exn_simps]: "bindE (returnE x) f s = f x s"
  by (simp add: bindE_def returnE_def)

lemma bindE_raiseE [exn_simps]: "bindE (raiseE e) f s = (Inl e, s)"
  by (simp add: bindE_def raiseE_def)

lemma bindE_liftE_Inr [exn_simps]: "bindE (liftE (Inr x)) f s = f x s"
  by (simp add: bindE_def liftE_def)

lemma bindE_liftE_Inl [exn_simps]: "bindE (liftE (Inl e)) f s = (Inl e, s)"
  by (simp add: bindE_def liftE_def)

lemma bindE_next_Cons [exn_simps]: "bindE next_rec f (self, r # rs) = f r (self, rs)"
  by (simp add: bindE_def next_rec_def)

lemma bindE_next_Nil [exn_simps]:
  "bindE next_rec f (self, []) = (Inl StopIteration, (self, []))"
  by (simp add: bindE_def next_rec_def)

lemma bindE_update_self [exn_simps]: "bindE (update_self g) f s = f () (g (fst s), snd s)"
  by (cases s) (simp add: bindE_def update_self_def)

lemma bindE_get_self [exn_simps]: "bindE get_self f s = f (fst s) s"
  by (cases s) (simp add: bindE_def get_self_def)

lemma bindE_assoc [exn_simps]: "bindE (bindE m f) g s = bindE m (\<lambda>x. bindE (f x) g) s"
  by (simp add: bindE_def split: prod.splits sum.splits)

lemma bindE_if [exn_simps]:
  "bindE (if c then a else b) f s = (if c then bindE a f s else bindE b f s)"
  by simp

lemma returnE_apply [exn_simps]: "returnE x s = (Inr x, s)"
  by (simp add: returnE_def)

lemma raiseE_apply [exn_simps]: "raiseE e s = (Inl e, s)"
  by (simp add: raiseE_def)

lemma next_rec_Cons [exn_simps]: "next_rec (self, r # rs) = (Inr r, (self, rs))"
  by (simp add: next_rec_def)

lemma next_rec_Nil [exn_simps]: "next_rec (self, []) = (Inl StopIteration, (self, []))"
  by (simp add: next_rec_def)

lemma update_self_apply [exn_simps]: "update_self g (self, recs) = (Inr (), (g self, recs))"
  by (simp add: update_self_def)

lemmas rec_simps =
  int_record_def real_record_def xy_record_def check_tag_def check_size_def data0_def
  record_points_def unpack2_def


subsection \<open>The shared prefix and each grammar on a stream of the specification\<close>

lemma ElementBase_read_start_prefix:
  "tag r \<noteq> ELFLAGS \<Longrightarrow> tag r \<noteq> PLEX \<Longrightarrow>
   bindE ElementBase_read_start f (self, common_prefix fl px @ r # rs) = f r (self, rs)"
  by (cases fl; cases px)
     (simp_all add: ElementBase_read_start_def common_prefix_def opt_record_def ignore_record_def exn_simps)

lemma ElementWithLayer_read_start_stream:
  "bindE ElementWithLayer_read_start f (self, common_prefix fl px @ \<lparr>tag = LAYER, data = IntegerList [l]\<rparr> # rs) = f () (self\<lparr>layer := IntV l\<rparr>, rs)"
  by (simp add: ElementWithLayer_read_start_def exn_simps ElementBase_read_start_prefix rec_simps)

lemma ElementWithLayerAndDataType_read_start_stream:
  "bindE ElementWithLayerAndDataType_read_start f (self, common_prefix fl px @ \<lparr>tag = LAYER, data = IntegerList [l]\<rparr> # \<lparr>tag = DATATYPE, data = IntegerList [d]\<rparr> # rs) = f () (self\<lparr>layer := IntV l, data_type := IntV d\<rparr>, rs)"
  by (simp add: ElementWithLayerAndDataType_read_start_def exn_simps ElementWithLayer_read_start_stream)
     (simp add: rec_simps exn_simps)

lemma BoundaryElement_read_element_stream:
  "BoundaryElement_read_element (self, common_prefix fl px @ boundary_stream l d pts @ trailer) =
    (if length pts < 4 then (Inl (FormatError ''less then 4 points in BOUNDARY''), (self\<lparr>layer := IntV l, data_type := IntV d, BoundaryElement.points := pts\<rparr>, trailer))
     else ElementBase_read_rest (self\<lparr>layer := IntV l, data_type := IntV d, BoundaryElement.points := pts\<rparr>, trailer))"
  by (simp add: BoundaryElement_read_element_def boundary_stream_def ElementWithLayerAndDataType_read_start_stream exn_simps rec_simps)

lemma PathElement_read_element_stream:
  "PathElement_read_element (self, common_prefix fl px @ path_stream l d pt w be ee pts @ trailer) =
    (let self' = self\<lparr>layer := IntV l, data_type := IntV d,
         PathElement.path_type := (case pt of None \<Rightarrow> PathElement.path_type self | Some v \<Rightarrow> Some (IntV v)),
         PathElement.width := (case w of None \<Rightarrow> PathElement.width self | Some v \<Rightarrow> Some (IntV v)),
         bgn_extn := (case be of None \<Rightarrow> bgn_extn self | Some v \<Rightarrow> Some (IntV v)),
         end_extn := (case ee of None \<Rightarrow> end_extn self | Some v \<Rightarrow> Some (IntV v)),
         PathElement.points := pts\<rparr> in
     if length pts < 2 then (Inl (FormatError ''less then 2 points in PATH''), (self', trailer))
     else ElementBase_read_rest (self', trailer))"
  by (cases pt; cases w; cases be; cases ee)
     (simp_all add: PathElement_read_element_def path_stream_def opt_int_def ElementWithLayerAndDataType_read_start_stream exn_simps rec_simps Let_def)

lemma TextElement_read_element_stream:
  "TextElement_read_element (self, common_prefix fl px @ text_stream l tt pres pt w tb pts str @ trailer) =
    (let self' = self\<lparr>layer := IntV l, text_type := IntV tt,
         presentation := (case pres of None \<Rightarrow> presentation self | Some v \<Rightarrow> Some v),
         TextElement.path_type := (case pt of None \<Rightarrow> TextElement.path_type self | Some v \<Rightarrow> Some (IntV v)),
         TextElement.width := (case w of None \<Rightarrow> TextElement.width self | Some v \<Rightarrow> Some (IntV v)),
         TextElement.strans := (case tb of None \<Rightarrow> TextElement.strans self | Some (s, m, a) \<Rightarrow> Some s),
         TextElement.mag := (case tb of None \<Rightarrow> TextElement.mag self | Some (s, None, a) \<Rightarrow> TextElement.mag self | Some (s, Some v, a) \<Rightarrow> Some (RealV v)),
         TextElement.angle := (case tb of None \<Rightarrow> TextElement.angle self | Some (s, m, None) \<Rightarrow> TextElement.angle self | Some (s, m, Some v) \<Rightarrow> Some (RealV v)),
         TextElement.points := pts\<rparr> in
     if length pts \<noteq> 1 then (Inl (FormatError ''TEXT should contain 1 point''), (self', \<lparr>tag = STRING, data = ByteString str\<rparr> # trailer))
     else ElementBase_read_rest (self'\<lparr>string := ByteString str\<rparr>, trailer))"
proof (cases tb)
  case None
  then show ?thesis
    by (cases pres; cases pt; cases w)
       (simp_all add: TextElement_read_element_def text_stream_def opt_int_def opt_record_def
          transform_block_def ElementWithLayer_read_start_stream exn_simps rec_simps Let_def)
next
  case (Some t)
  obtain s m a where t: "t = (s, m, a)" by (cases t)
  show ?thesis
    unfolding Some t
    by (cases pres; cases pt; cases w; cases m; cases a)
       (simp_all add: TextElement_read_element_def text_stream_def opt_int_def opt_record_def
          opt_real_def transform_block_def ElementWithLayer_read_start_stream exn_simps rec_simps Let_def)
qed

lemma SRefElement_read_start_stream:
  assumes "tag r \<noteq> STRANS" "tag r \<noteq> MAG" "tag r \<noteq> ANGLE"
  shows "bindE SRefElement_read_start f
      (self, common_prefix fl px @ \<lparr>tag = SNAME, data = nm\<rparr> # transform_block tb @ r # rs) =
    f r (self\<lparr>struct_name := nm,
         SRefElement.strans := (case tb of None \<Rightarrow> SRefElement.strans self | Some (s, m, a) \<Rightarrow> Some s),
         SRefElement.mag := (case tb of None \<Rightarrow> SRefElement.mag self | Some (s, None, a) \<Rightarrow> SRefElement.mag self | Some (s, Some v, a) \<Rightarrow> Some (RealV v)),
         SRefElement.angle := (case tb of None \<Rightarrow> SRefElement.angle self | Some (s, m, None) \<Rightarrow> SRefElement.angle self | Some (s, m, Some v) \<Rightarrow> Some (RealV v))\<rparr>, rs)"
proof (cases tb)
  case None
  with assms show ?thesis
    by (simp add: SRefElement_read_start_def transform_block_def ElementBase_read_start_prefix exn_simps rec_simps)
next
  case (Some t)
  obtain s m a where t: "t = (s, m, a)" by (cases t)
  from assms show ?thesis
    unfolding Some t
    by (cases m; cases a)
       (simp_all add: SRefElement_read_start_def transform_block_def opt_real_def ElementBase_read_start_prefix exn_simps rec_simps)
qed

lemma SRefElement_read_element_stream:
  "SRefElement_read_element (self, common_prefix fl px @ sref_stream name tb pts @ trailer) =
    (let self' = self\<lparr>struct_name := ByteString name,
         SRefElement.strans := (case tb of None \<Rightarrow> SRefElement.strans self | Some (s, m, a) \<Rightarrow> Some s),
         SRefElement.mag := (case tb of None \<Rightarrow> SRefElement.mag self | Some (s, None, a) \<Rightarrow> SRefElement.mag self | Some (s, Some v, a) \<Rightarrow> Some (RealV v)),
         SRefElement.angle := (case tb of None \<Rightarrow> SRefElement.angle self | Some (s, m, None) \<Rightarrow> SRefElement.angle self | Some (s, m, Some v) \<Rightarrow> Some (RealV v)),
         SRefElement.points := pts\<rparr> in
     if length pts \<noteq> 1 then (Inl (FormatError ''SREF should contain 1 point''), (self', trailer))
     else ElementBase_read_rest (self', trailer))"
  by (simp add: SRefElement_read_element_def sref_stream_def SRefElement_read_start_stream xy_record_def exn_simps Let_def)
     (simp add: exn_simps rec_simps)

lemma ARefElement_read_element_stream:
  "ARefElement_read_element (self, common_prefix fl px @ aref_stream name tb c w pts @ trailer) =
    (let self' = self\<lparr>struct_name := ByteString name,
         SRefElement.strans := (case tb of None \<Rightarrow> SRefElement.strans self | Some (s, m, a) \<Rightarrow> Some s),
         SRefElement.mag := (case tb of None \<Rightarrow> SRefElement.mag self | Some (s, None, a) \<Rightarrow> SRefElement.mag self | Some (s, Some v, a) \<Rightarrow> Some (RealV v)),
         SRefElement.angle := (case tb of None \<Rightarrow> SRefElement.angle self | Some (s, m, None) \<Rightarrow> SRefElement.angle self | Some (s, m, Some v) \<Rightarrow> Some (RealV v)),
         cols := IntV c, rows := IntV w,
         SRefElement.points := pts\<rparr> in
     if length pts \<noteq> 3 then (Inl (FormatError ''AREF should contain 3 points''), (self', trailer))
     else ElementBase_read_rest (self', trailer))"
  by (simp add: ARefElement_read_element_def aref_stream_def SRefElement_read_start_stream xy_record_def exn_simps Let_def)
     (simp add: exn_simps rec_simps)

lemma NodeElement_read_element_stream:
  "NodeElement_read_element (self, common_prefix fl px @ node_stream l nt pts @ trailer) =
    (let self' = self\<lparr>layer := IntV l, node_type := IntV nt, NodeElement.points := pts\<rparr> in
     if length pts < 1 then (Inl (FormatError ''NODE should contain at least 1 point''), (self', trailer))
     else ElementBase_read_rest (self', trailer))"
  by (simp add: NodeElement_read_element_def node_stream_def ElementWithLayer_read_start_stream exn_simps rec_simps Let_def)

lemma BoxElement_read_element_stream:
  "BoxElement_read_element (self, common_prefix fl px @ box_stream l bt pts @ trailer) =
    (let self' = self\<lparr>layer := IntV l, box_type := IntV bt, BoxElement.points := pts\<rparr> in
     if length pts \<noteq> 5 then (Inl (FormatError ''BOX should contain 5 points''), (self', trailer))
     else ElementBase_read_rest (self', trailer))"
  by (simp add: BoxElement_read_element_def box_stream_def ElementWithLayer_read_start_stream exn_simps rec_simps Let_def)


lemma read_rest_ENDEL:
  "ElementBase_read_rest (self, \<lparr>tag = ENDEL, data = de\<rparr> # rest) = (Inr (), (self, rest))"
  by simp

lemma BoundaryElement_init_no_kwargs:
  "BoundaryElement_init no_kwargs =
     \<lparr>properties = PyList [], layer = IntV 0, data_type = IntV 0, BoundaryElement.points = []\<rparr>"
  by (simp add: BoundaryElement_init_def ElementWithLayerAndDataType_init_def
      ElementWithLayer_init_def ElementBase_init_def no_kwargs_def kwargs_get_def
      BoundaryElement.defs ElementWithLayerAndDataType.defs ElementWithLayer.defs ElementBase.defs)

lemma PathElement_init_no_kwargs:
  "PathElement_init no_kwargs =
     \<lparr>properties = PyList [], layer = IntV 0, data_type = IntV 0,
      PathElement.path_type = None, PathElement.width = None, bgn_extn = None, end_extn = None,
      PathElement.points = []\<rparr>"
  by (simp add: PathElement_init_def ElementWithLayerAndDataType_init_def
      ElementWithLayer_init_def ElementBase_init_def no_kwargs_def kwargs_get_def
      PathElement.defs ElementWithLayerAndDataType.defs ElementWithLayer.defs ElementBase.defs)

lemma SRefElement_init_no_kwargs:
  "SRefElement_init no_kwargs =
     \<lparr>properties = PyList [], struct_name = ByteString [], SRefElement.strans = None,
      SRefElement.mag = None, SRefElement.angle = None, SRefElement.points = []\<rparr>"
  by (simp add: SRefElement_init_def ElementBase_init_def no_kwargs_def kwargs_get_def
      SRefElement.defs ElementBase.defs)

lemma ARefElement_init_no_kwargs:
  "ARefElement_init no_kwargs =
     \<lparr>properties = PyList [], struct_name = ByteString [], SRefElement.strans = None,
      SRefElement.mag = None, SRefElement.angle = None, SRefElement.points = [],
      cols = IntV 1, rows = IntV 1\<rparr>"
  by (simp add: ARefElement_init_def SRefElement_init_def ElementBase_init_def no_kwargs_def
      kwargs_get_def ARefElement.defs SRefElement.defs ElementBase.defs)

lemma TextElement_init_no_kwargs:
  "TextElement_init no_kwargs =
     \<lparr>properties = PyList [], layer = IntV 0, text_type = IntV 0, presentation = None,
      TextElement.path_type = None, TextElement.width = None, TextElement.strans = None,
      TextElement.mag = None, TextElement.angle = None, TextElement.points = [],
      string = ByteString []\<rparr>"
  by (simp add: TextElement_init_def ElementWithLayer_init_def ElementBase_init_def
      no_kwargs_def kwargs_get_def TextElement.defs ElementWithLayer.defs ElementBase.defs)

lemma NodeElement_init_no_kwargs:
  "NodeElement_init no_kwargs =
     \<lparr>properties = PyList [], layer = IntV 0, node_type = IntV 0, NodeElement.points = []\<rparr>"
  by (simp add: NodeElement_init_def ElementWithLayer_init_def ElementBase_init_def
      no_kwargs_def kwargs_get_def NodeElement.defs ElementWithLayer.defs ElementBase.defs)

lemma BoxElement_init_no_kwargs:
  "BoxElement_init no_kwargs =
     \<lparr>properties = PyList [], layer = IntV 0, box_type = IntV 0, BoxElement.points = []\<rparr>"
  by (simp add: BoxElement_init_def ElementWithLayer_init_def ElementBase_init_def
      no_kwargs_def kwargs_get_def BoxElement.defs ElementWithLayer.defs ElementBase.defs)

lemmas init_no_kwargs =
  BoundaryElement_init_no_kwargs PathElement_init_no_kwargs SRefElement_init_no_kwargs
  ARefElement_init_no_kwargs TextElement_init_no_kwargs NodeElement_init_no_kwargs
  BoxElement_init_no_kwargs


section \<open>Direct construction\<close>

text \<open>
  C10. Constructing an element of any class with no keyword argument succeeds and gives the
  mandatory fields their defaults (layer, data type, text type, node type and box type 0,
  no point, an empty structure name, one column and one row) and leaves every optional
  field (path type, width, both extensions, presentation, strans, mag, angle) absent.
\<close>

theorem default_construction:
  "BoundaryElement_init no_kwargs =
     \<lparr>properties = PyList [], layer = IntV 0, data_type = IntV 0, BoundaryElement.points = []\<rparr>
   \<and> PathElement_init no_kwargs =
     \<lparr>properties = PyList [], layer = IntV 0, data_type = IntV 0,
      PathElement.path_type = None, PathElement.width = None, bgn_extn = None, end_extn = None,
      PathElement.points = []\<rparr>
   \<and> SRefElement_init no_kwargs =
     \<lparr>properties = PyList [], struct_name = ByteString [], SRefElement.strans = None,
      SRefElement.mag = None, SRefElement.angle = None, SRefElement.points = []\<rparr>
   \<and> ARefElement_init no_kwargs =
     \<lparr>properties = PyList [], struct_name = ByteString [], SRefElement.strans = None,
      SRefElement.mag = None, SRefElement.angle = None, SRefElement.points = [],
      cols = IntV 1, rows = IntV 1\<rparr>
   \<and> TextElement_init no_kwargs =
     \<lparr>properties = PyList [], layer = IntV 0, text_type = IntV 0, presentation = None,
      TextElement.path_type = None, TextElement.width = None, TextElement.strans = None,
      TextElement.mag = None, TextElement.angle = None, TextElement.points = [],
      string = ByteString []\<rparr>
   \<and> NodeElement_init no_kwargs =
     \<lparr>properties = PyList [], layer = IntV 0, node_type = IntV 0, NodeElement.points = []\<rparr>
   \<and> BoxElement_init no_kwargs =
     \<lparr>properties = PyList [], layer = IntV 0, box_type = IntV 0, BoxElement.points = []\<rparr>"
  by (simp add: init_no_kwargs)

section \<open>The dispatcher on a tag that starts no element\<close>

lemma load_KeyError:
  "tag_to_class_map (tag lastrec) = None \<Longrightarrow> load lastrec recs = (Inl KeyError, recs)"
  by (simp add: load_def)

lemma tag_to_class_map_None:
  "t \<notin> {BOUNDARY, PATH, SREF, AREF, TEXT, NODE, BOX} \<Longrightarrow> tag_to_class_map t = None"
  by (simp add: tag_to_class_map_def)

text \<open>
  C3. The claim: on a record whose tag is none of the seven element-start tags, load fails
  with a FormatError that reports an unexpected element tag. The dictionary is indexed
  before the test that would raise it, so on a LAYER record the lookup itself raises
  KeyError and the FormatError is never reached.
\<close>

theorem load_unrecognized_tag_raises_KeyError:
  "load \<lparr>tag = LAYER, data = IntegerList [1]\<rparr> [] = (Inl KeyError, [])"
  by (simp add: load_def tag_to_class_map_def)


subsection \<open>The dispatcher on a stream of the specification\<close>

lemma load_boundary_bad:
  "length pts < 4 \<Longrightarrow>
   load \<lparr>tag = BOUNDARY, data = sd\<rparr> (common_prefix fl px @ boundary_stream l d pts @ trailer) =
     (Inl (FormatError ''less then 4 points in BOUNDARY''), trailer)"
  by (simp add: load_def tag_to_class_map_def truth_value_def init_no_kwargs BoundaryElement_read_element_stream Let_def)

lemma load_boundary_ok:
  "\<not> length pts < 4 \<Longrightarrow>
   load \<lparr>tag = BOUNDARY, data = sd\<rparr> (common_prefix fl px @ boundary_stream l d pts @ \<lparr>tag = ENDEL, data = de\<rparr> # rest) =
     (Inr (Boundary \<lparr>properties = PyList [], layer = IntV l, data_type = IntV d, BoundaryElement.points = pts\<rparr>), rest)"
  by (simp add: load_def tag_to_class_map_def truth_value_def init_no_kwargs BoundaryElement_read_element_stream Let_def)

lemma load_path_bad:
  "length pts < 2 \<Longrightarrow>
   load \<lparr>tag = PATH, data = sd\<rparr> (common_prefix fl px @ path_stream l d pt w be ee pts @ trailer) =
     (Inl (FormatError ''less then 2 points in PATH''), trailer)"
  by (simp add: load_def tag_to_class_map_def truth_value_def init_no_kwargs PathElement_read_element_stream Let_def)

lemma load_path_ok:
  "\<not> length pts < 2 \<Longrightarrow>
   load \<lparr>tag = PATH, data = sd\<rparr> (common_prefix fl px @ path_stream l d pt w be ee pts @ \<lparr>tag = ENDEL, data = de\<rparr> # rest) =
     (Inr (Path \<lparr>properties = PyList [], layer = IntV l, data_type = IntV d,
       PathElement.path_type = map_option IntV pt, PathElement.width = map_option IntV w,
       bgn_extn = map_option IntV be, end_extn = map_option IntV ee, PathElement.points = pts\<rparr>), rest)"
  by (simp add: load_def tag_to_class_map_def truth_value_def init_no_kwargs PathElement_read_element_stream Let_def
      split: option.splits)

lemma load_sref_bad:
  "length pts \<noteq> 1 \<Longrightarrow>
   load \<lparr>tag = SREF, data = sd\<rparr> (common_prefix fl px @ sref_stream name tb pts @ trailer) =
     (Inl (FormatError ''SREF should contain 1 point''), trailer)"
  by (simp add: load_def tag_to_class_map_def truth_value_def init_no_kwargs SRefElement_read_element_stream Let_def)

lemma load_sref_ok:
  "\<not> length pts \<noteq> 1 \<Longrightarrow>
   load \<lparr>tag = SREF, data = sd\<rparr> (common_prefix fl px @ sref_stream name tb pts @ \<lparr>tag = ENDEL, data = de\<rparr> # rest) =
     (Inr (SRef \<lparr>properties = PyList [], struct_name = ByteString name, SRefElement.strans = tb_strans tb,
      SRefElement.mag = tb_mag tb, SRefElement.angle = tb_angle tb, SRefElement.points = pts\<rparr>), rest)"
  by (simp add: load_def tag_to_class_map_def truth_value_def init_no_kwargs SRefElement_read_element_stream Let_def tb_strans_def tb_mag_def tb_angle_def
      split: option.splits)

lemma load_aref_bad:
  "length pts \<noteq> 3 \<Longrightarrow>
   load \<lparr>tag = AREF, data = sd\<rparr> (common_prefix fl px @ aref_stream name tb c r pts @ trailer) =
     (Inl (FormatError ''AREF should contain 3 points''), trailer)"
  by (simp add: load_def tag_to_class_map_def truth_value_def init_no_kwargs ARefElement_read_element_stream Let_def)

lemma load_aref_ok:
  "\<not> length pts \<noteq> 3 \<Longrightarrow>
   load \<lparr>tag = AREF, data = sd\<rparr> (common_prefix fl px @ aref_stream name tb c r pts @ \<lparr>tag = ENDEL, data = de\<rparr> # rest) =
     (Inr (ARef \<lparr>properties = PyList [], struct_name = ByteString name, SRefElement.strans = tb_strans tb,
      SRefElement.mag = tb_mag tb, SRefElement.angle = tb_angle tb, SRefElement.points = pts,
      cols = IntV c, rows = IntV r\<rparr>), rest)"
  by (simp add: load_def tag_to_class_map_def truth_value_def init_no_kwargs ARefElement_read_element_stream Let_def tb_strans_def tb_mag_def tb_angle_def
      split: option.splits)

lemma load_text_bad:
  "length pts \<noteq> 1 \<Longrightarrow>
   load \<lparr>tag = TEXT, data = sd\<rparr> (common_prefix fl px @ text_stream l tt pres pt w tb pts str @ trailer) =
     (Inl (FormatError ''TEXT should contain 1 point''), \<lparr>tag = STRING, data = ByteString str\<rparr> # trailer)"
  by (simp add: load_def tag_to_class_map_def truth_value_def init_no_kwargs TextElement_read_element_stream Let_def)

lemma load_text_ok:
  "\<not> length pts \<noteq> 1 \<Longrightarrow>
   load \<lparr>tag = TEXT, data = sd\<rparr> (common_prefix fl px @ text_stream l tt pres pt w tb pts str @ \<lparr>tag = ENDEL, data = de\<rparr> # rest) =
     (Inr (Text \<lparr>properties = PyList [], layer = IntV l, text_type = IntV tt, presentation = pres,
      TextElement.path_type = map_option IntV pt, TextElement.width = map_option IntV w,
      TextElement.strans = tb_strans tb, TextElement.mag = tb_mag tb, TextElement.angle = tb_angle tb,
      TextElement.points = pts, string = ByteString str\<rparr>), rest)"
  by (simp add: load_def tag_to_class_map_def truth_value_def init_no_kwargs TextElement_read_element_stream Let_def tb_strans_def tb_mag_def tb_angle_def
      split: option.splits)

lemma load_node_bad:
  "length pts < 1 \<Longrightarrow>
   load \<lparr>tag = NODE, data = sd\<rparr> (common_prefix fl px @ node_stream l nt pts @ trailer) =
     (Inl (FormatError ''NODE should contain at least 1 point''), trailer)"
  by (simp add: load_def tag_to_class_map_def truth_value_def init_no_kwargs NodeElement_read_element_stream Let_def)

lemma load_node_ok:
  "\<not> length pts < 1 \<Longrightarrow>
   load \<lparr>tag = NODE, data = sd\<rparr> (common_prefix fl px @ node_stream l nt pts @ \<lparr>tag = ENDEL, data = de\<rparr> # rest) =
     (Inr (Node \<lparr>properties = PyList [], layer = IntV l, node_type = IntV nt, NodeElement.points = pts\<rparr>), rest)"
  by (simp add: load_def tag_to_class_map_def truth_value_def init_no_kwargs NodeElement_read_element_stream Let_def)

lemma load_box_bad:
  "length pts \<noteq> 5 \<Longrightarrow>
   load \<lparr>tag = BOX, data = sd\<rparr> (common_prefix fl px @ box_stream l bt pts @ trailer) =
     (Inl (FormatError ''BOX should contain 5 points''), trailer)"
  by (simp add: load_def tag_to_class_map_def truth_value_def init_no_kwargs BoxElement_read_element_stream Let_def)

lemma load_box_ok:
  "\<not> length pts \<noteq> 5 \<Longrightarrow>
   load \<lparr>tag = BOX, data = sd\<rparr> (common_prefix fl px @ box_stream l bt pts @ \<lparr>tag = ENDEL, data = de\<rparr> # rest) =
     (Inr (Box \<lparr>properties = PyList [], layer = IntV l, box_type = IntV bt, BoxElement.points = pts\<rparr>), rest)"
  by (simp add: load_def tag_to_class_map_def truth_value_def init_no_kwargs BoxElement_read_element_stream Let_def)

lemmas load_bad =
  load_boundary_bad load_path_bad load_sref_bad load_aref_bad load_text_bad load_node_bad
  load_box_bad

lemmas load_ok =
  load_boundary_ok load_path_ok load_sref_ok load_aref_ok load_text_ok load_node_ok load_box_ok

section \<open>Point counts\<close>

text \<open>
  C4. For every element, a stream whose fields are in order and whose XY record carries a
  point list breaking the count of the element (Boundary fewer than 4, Path fewer than 2,
  StructureRef not 1, ArrayRef not 3, Text not 1, Node fewer than 1, Box not 5) makes load
  fail with the FormatError of that count, and no element is returned. The decoder stops
  at the XY record: what follows it (any trailer, and the STRING record of a Text) is left
  in the generator.
\<close>

theorem point_count_violation_rejected:
  "(length pts_boundary < 4 \<longrightarrow>
      load \<lparr>tag = BOUNDARY, data = sd\<rparr>
        (common_prefix fl px @ boundary_stream l d pts_boundary @ trailer)
      = (Inl (FormatError ''less then 4 points in BOUNDARY''), trailer))
   \<and> (length pts_path < 2 \<longrightarrow>
      load \<lparr>tag = PATH, data = sd\<rparr>
        (common_prefix fl px @ path_stream l d pt w be ee pts_path @ trailer)
      = (Inl (FormatError ''less then 2 points in PATH''), trailer))
   \<and> (length pts_sref \<noteq> 1 \<longrightarrow>
      load \<lparr>tag = SREF, data = sd\<rparr>
        (common_prefix fl px @ sref_stream name tb pts_sref @ trailer)
      = (Inl (FormatError ''SREF should contain 1 point''), trailer))
   \<and> (length pts_aref \<noteq> 3 \<longrightarrow>
      load \<lparr>tag = AREF, data = sd\<rparr>
        (common_prefix fl px @ aref_stream name tb c r pts_aref @ trailer)
      = (Inl (FormatError ''AREF should contain 3 points''), trailer))
   \<and> (length pts_text \<noteq> 1 \<longrightarrow>
      load \<lparr>tag = TEXT, data = sd\<rparr>
        (common_prefix fl px @ text_stream l tt pres pt w tb pts_text str @ trailer)
      = (Inl (FormatError ''TEXT should contain 1 point''),
         \<lparr>tag = STRING, data = ByteString str\<rparr> # trailer))
   \<and> (length pts_node < 1 \<longrightarrow>
      load \<lparr>tag = NODE, data = sd\<rparr>
        (common_prefix fl px @ node_stream l nt pts_node @ trailer)
      = (Inl (FormatError ''NODE should contain at least 1 point''), trailer))
   \<and> (length pts_box \<noteq> 5 \<longrightarrow>
      load \<lparr>tag = BOX, data = sd\<rparr>
        (common_prefix fl px @ box_stream l bt pts_box @ trailer)
      = (Inl (FormatError ''BOX should contain 5 points''), trailer))"
  by (simp add: load_bad)

theorem point_count_violation_rejected_witness:
  "length [(0, 0), (0, 10), (10, 10)::point] < 4
   \<and> load \<lparr>tag = BOUNDARY, data = ByteString []\<rparr>
        (common_prefix None None @ boundary_stream 1 0 [(0, 0), (0, 10), (10, 10)]
         @ [\<lparr>tag = ENDEL, data = ByteString []\<rparr>])
      = (Inl (FormatError ''less then 4 points in BOUNDARY''),
         [\<lparr>tag = ENDEL, data = ByteString []\<rparr>])
   \<and> length [(0, 0)::point] < 2
   \<and> load \<lparr>tag = PATH, data = ByteString []\<rparr>
        (common_prefix None None @ path_stream 1 0 None (Some 2) None None [(0, 0)]
         @ [\<lparr>tag = ENDEL, data = ByteString []\<rparr>])
      = (Inl (FormatError ''less then 2 points in PATH''),
         [\<lparr>tag = ENDEL, data = ByteString []\<rparr>])
   \<and> length [(0, 0), (1, 1)::point] \<noteq> 1
   \<and> load \<lparr>tag = SREF, data = ByteString []\<rparr>
        (common_prefix None None @ sref_stream ''CELL_A'' None [(0, 0), (1, 1)]
         @ [\<lparr>tag = ENDEL, data = ByteString []\<rparr>])
      = (Inl (FormatError ''SREF should contain 1 point''),
         [\<lparr>tag = ENDEL, data = ByteString []\<rparr>])
   \<and> length [(0, 0), (1, 1)::point] \<noteq> 3
   \<and> load \<lparr>tag = AREF, data = ByteString []\<rparr>
        (common_prefix None None @ aref_stream ''CELL_A'' None 3 2 [(0, 0), (1, 1)]
         @ [\<lparr>tag = ENDEL, data = ByteString []\<rparr>])
      = (Inl (FormatError ''AREF should contain 3 points''),
         [\<lparr>tag = ENDEL, data = ByteString []\<rparr>])
   \<and> length ([]::point list) \<noteq> 1
   \<and> load \<lparr>tag = TEXT, data = ByteString []\<rparr>
        (common_prefix None None @ text_stream 1 0 None None (Some 2) None [] ''M1''
         @ [\<lparr>tag = ENDEL, data = ByteString []\<rparr>])
      = (Inl (FormatError ''TEXT should contain 1 point''),
         [\<lparr>tag = STRING, data = ByteString ''M1''\<rparr>, \<lparr>tag = ENDEL, data = ByteString []\<rparr>])
   \<and> length ([]::point list) < 1
   \<and> load \<lparr>tag = NODE, data = ByteString []\<rparr>
        (common_prefix None None @ node_stream 1 0 []
         @ [\<lparr>tag = ENDEL, data = ByteString []\<rparr>])
      = (Inl (FormatError ''NODE should contain at least 1 point''),
         [\<lparr>tag = ENDEL, data = ByteString []\<rparr>])
   \<and> length [(0, 0), (0, 1), (1, 1), (1, 0)::point] \<noteq> 5
   \<and> load \<lparr>tag = BOX, data = ByteString []\<rparr>
        (common_prefix None None @ box_stream 1 0 [(0, 0), (0, 1), (1, 1), (1, 0)]
         @ [\<lparr>tag = ENDEL, data = ByteString []\<rparr>])
      = (Inl (FormatError ''BOX should contain 5 points''),
         [\<lparr>tag = ENDEL, data = ByteString []\<rparr>])"
  using point_count_violation_rejected
    [where pts_boundary = "[(0, 0), (0, 10), (10, 10)]" and pts_path = "[(0, 0)]"
       and pts_sref = "[(0, 0), (1, 1)]" and pts_aref = "[(0, 0), (1, 1)]"
       and pts_text = "[]" and pts_node = "[]"
       and pts_box = "[(0, 0), (0, 1), (1, 1), (1, 0)]"
       and sd = "ByteString []" and fl = None and px = None and l = 1 and d = 0
       and trailer = "[\<lparr>tag = ENDEL, data = ByteString []\<rparr>]"
       and pt = None and w = "Some 2" and be = None and ee = None
       and name = "''CELL_A''" and tb = None and c = 3 and r = 2
       and tt = 0 and pres = None and str = "''M1''" and nt = 0 and bt = 0]
  by simp

section \<open>Mandatory fields\<close>

text \<open>
  Streams with no property record. For every element, a stream that holds the mandatory
  fields in the order of the grammar (after an optional ELFLAGS and PLEX record, with any of the optional fields in
  their order), a point list of an allowed length and the end marker decodes: load returns
  an element of the class of the start tag whose mandatory fields are the values of the
  stream, and leaves in the generator what follows the end marker. The last conjunct is
  the Boundary of the specification: layer 1, data type 0, four points, no property.
\<close>

theorem mandatory_fields_decoded:
  "(4 \<le> length pts_boundary \<longrightarrow>
      (\<exists>el. load \<lparr>tag = BOUNDARY, data = sd\<rparr>
                (common_prefix fl px @ boundary_stream l d pts_boundary
                 @ \<lparr>tag = ENDEL, data = de\<rparr> # rest) = (Inr (Boundary el), rest)
            \<and> layer el = IntV l \<and> data_type el = IntV d
            \<and> BoundaryElement.points el = pts_boundary))
   \<and> (2 \<le> length pts_path \<longrightarrow>
      (\<exists>el. load \<lparr>tag = PATH, data = sd\<rparr>
                (common_prefix fl px @ path_stream l d pt w be ee pts_path
                 @ \<lparr>tag = ENDEL, data = de\<rparr> # rest) = (Inr (Path el), rest)
            \<and> layer el = IntV l \<and> data_type el = IntV d
            \<and> PathElement.points el = pts_path))
   \<and> (length pts_sref = 1 \<longrightarrow>
      (\<exists>el. load \<lparr>tag = SREF, data = sd\<rparr>
                (common_prefix fl px @ sref_stream name tb pts_sref
                 @ \<lparr>tag = ENDEL, data = de\<rparr> # rest) = (Inr (SRef el), rest)
            \<and> struct_name el = ByteString name \<and> SRefElement.points el = pts_sref))
   \<and> (length pts_aref = 3 \<longrightarrow>
      (\<exists>el. load \<lparr>tag = AREF, data = sd\<rparr>
                (common_prefix fl px @ aref_stream name tb c r pts_aref
                 @ \<lparr>tag = ENDEL, data = de\<rparr> # rest) = (Inr (ARef el), rest)
            \<and> struct_name el = ByteString name \<and> cols el = IntV c \<and> rows el = IntV r
            \<and> SRefElement.points el = pts_aref))
   \<and> (length pts_text = 1 \<longrightarrow>
      (\<exists>el. load \<lparr>tag = TEXT, data = sd\<rparr>
                (common_prefix fl px @ text_stream l tt pres pt w tb pts_text str
                 @ \<lparr>tag = ENDEL, data = de\<rparr> # rest) = (Inr (Text el), rest)
            \<and> layer el = IntV l \<and> text_type el = IntV tt
            \<and> TextElement.points el = pts_text \<and> string el = ByteString str))
   \<and> (1 \<le> length pts_node \<longrightarrow>
      (\<exists>el. load \<lparr>tag = NODE, data = sd\<rparr>
                (common_prefix fl px @ node_stream l nt pts_node
                 @ \<lparr>tag = ENDEL, data = de\<rparr> # rest) = (Inr (Node el), rest)
            \<and> layer el = IntV l \<and> node_type el = IntV nt
            \<and> NodeElement.points el = pts_node))
   \<and> (length pts_box = 5 \<longrightarrow>
      (\<exists>el. load \<lparr>tag = BOX, data = sd\<rparr>
                (common_prefix fl px @ box_stream l bt pts_box
                 @ \<lparr>tag = ENDEL, data = de\<rparr> # rest) = (Inr (Box el), rest)
            \<and> layer el = IntV l \<and> box_type el = IntV bt
            \<and> BoxElement.points el = pts_box))
   \<and> load \<lparr>tag = BOUNDARY, data = sd\<rparr>
        (boundary_stream 1 0 [(0, 0), (0, 10), (10, 10), (10, 0)]
         @ [\<lparr>tag = ENDEL, data = de\<rparr>])
      = (Inr (Boundary \<lparr>properties = PyList [], layer = IntV 1, data_type = IntV 0,
                        BoundaryElement.points = [(0, 0), (0, 10), (10, 10), (10, 0)]\<rparr>), [])"
proof -
  have "load \<lparr>tag = BOUNDARY, data = sd\<rparr>
        (common_prefix None None @ boundary_stream 1 0 [(0, 0), (0, 10), (10, 10), (10, 0)]
         @ \<lparr>tag = ENDEL, data = de\<rparr> # [])
      = (Inr (Boundary \<lparr>properties = PyList [], layer = IntV 1, data_type = IntV 0,
                        BoundaryElement.points = [(0, 0), (0, 10), (10, 10), (10, 0)]\<rparr>), [])"
    by (rule load_boundary_ok) simp
  then have scenario:
    "load \<lparr>tag = BOUNDARY, data = sd\<rparr>
        (boundary_stream 1 0 [(0, 0), (0, 10), (10, 10), (10, 0)]
         @ [\<lparr>tag = ENDEL, data = de\<rparr>])
      = (Inr (Boundary \<lparr>properties = PyList [], layer = IntV 1, data_type = IntV 0,
                        BoundaryElement.points = [(0, 0), (0, 10), (10, 10), (10, 0)]\<rparr>), [])"
    by (simp add: common_prefix_def opt_record_def)
  have boundary: "4 \<le> length pts_boundary \<Longrightarrow> \<not> length pts_boundary < 4"
    and path: "2 \<le> length pts_path \<Longrightarrow> \<not> length pts_path < 2"
    and node: "1 \<le> length pts_node \<Longrightarrow> \<not> length pts_node < 1"
    by arith+
  show ?thesis
    by (intro conjI impI)
       (simp_all add: scenario load_boundary_ok [OF boundary] load_path_ok [OF path]
          load_node_ok [OF node] load_sref_ok load_aref_ok load_text_ok load_box_ok)
qed

theorem mandatory_fields_decoded_witness:
  "4 \<le> length [(0, 0), (0, 10), (10, 10), (10, 0)::point]
   \<and> (\<exists>el. load \<lparr>tag = BOUNDARY, data = ByteString []\<rparr>
              (common_prefix None None
               @ boundary_stream 1 0 [(0, 0), (0, 10), (10, 10), (10, 0)]
               @ \<lparr>tag = ENDEL, data = ByteString []\<rparr> # []) = (Inr (Boundary el), [])
          \<and> layer el = IntV 1 \<and> data_type el = IntV 0
          \<and> BoundaryElement.points el = [(0, 0), (0, 10), (10, 10), (10, 0)])
   \<and> 2 \<le> length [(0, 0), (5, 5)::point]
   \<and> (\<exists>el. load \<lparr>tag = PATH, data = ByteString []\<rparr>
              (common_prefix None None @ path_stream 1 0 None (Some 2) None None [(0, 0), (5, 5)]
               @ \<lparr>tag = ENDEL, data = ByteString []\<rparr> # []) = (Inr (Path el), [])
          \<and> layer el = IntV 1 \<and> data_type el = IntV 0
          \<and> PathElement.points el = [(0, 0), (5, 5)])
   \<and> length [(7, 8)::point] = 1
   \<and> (\<exists>el. load \<lparr>tag = SREF, data = ByteString []\<rparr>
              (common_prefix None None @ sref_stream ''CELL_A'' None [(7, 8)]
               @ \<lparr>tag = ENDEL, data = ByteString []\<rparr> # []) = (Inr (SRef el), [])
          \<and> struct_name el = ByteString ''CELL_A'' \<and> SRefElement.points el = [(7, 8)])
   \<and> length [(0, 0), (30, 0), (0, 20)::point] = 3
   \<and> (\<exists>el. load \<lparr>tag = AREF, data = ByteString []\<rparr>
              (common_prefix None None
               @ aref_stream ''CELL_A'' None 3 2 [(0, 0), (30, 0), (0, 20)]
               @ \<lparr>tag = ENDEL, data = ByteString []\<rparr> # []) = (Inr (ARef el), [])
          \<and> struct_name el = ByteString ''CELL_A'' \<and> cols el = IntV 3 \<and> rows el = IntV 2
          \<and> SRefElement.points el = [(0, 0), (30, 0), (0, 20)])
   \<and> length [(100, 200)::point] = 1
   \<and> (\<exists>el. load \<lparr>tag = TEXT, data = ByteString []\<rparr>
              (common_prefix None None
               @ text_stream 1 0 None None (Some 2) None [(100, 200)] ''M1''
               @ \<lparr>tag = ENDEL, data = ByteString []\<rparr> # []) = (Inr (Text el), [])
          \<and> layer el = IntV 1 \<and> text_type el = IntV 0
          \<and> TextElement.points el = [(100, 200)] \<and> string el = ByteString ''M1'')
   \<and> 1 \<le> length [(1, 1)::point]
   \<and> (\<exists>el. load \<lparr>tag = NODE, data = ByteString []\<rparr>
              (common_prefix None None @ node_stream 1 0 [(1, 1)]
               @ \<lparr>tag = ENDEL, data = ByteString []\<rparr> # []) = (Inr (Node el), [])
          \<and> layer el = IntV 1 \<and> node_type el = IntV 0 \<and> NodeElement.points el = [(1, 1)])
   \<and> length [(0, 0), (0, 1), (1, 1), (1, 0), (0, 0)::point] = 5
   \<and> (\<exists>el. load \<lparr>tag = BOX, data = ByteString []\<rparr>
              (common_prefix None None @ box_stream 1 0 [(0, 0), (0, 1), (1, 1), (1, 0), (0, 0)]
               @ \<lparr>tag = ENDEL, data = ByteString []\<rparr> # []) = (Inr (Box el), [])
          \<and> layer el = IntV 1 \<and> box_type el = IntV 0
          \<and> BoxElement.points el = [(0, 0), (0, 1), (1, 1), (1, 0), (0, 0)])"
  using mandatory_fields_decoded
    [where pts_boundary = "[(0, 0), (0, 10), (10, 10), (10, 0)]"
       and pts_path = "[(0, 0), (5, 5)]" and pts_sref = "[(7, 8)]"
       and pts_aref = "[(0, 0), (30, 0), (0, 20)]" and pts_text = "[(100, 200)]"
       and pts_node = "[(1, 1)]" and pts_box = "[(0, 0), (0, 1), (1, 1), (1, 0), (0, 0)]"
       and sd = "ByteString []" and de = "ByteString []" and fl = None and px = None
       and l = 1 and d = 0 and rest = "[]"
       and pt = None and w = "Some 2" and be = None and ee = None
       and name = "''CELL_A''" and tb = None and c = 3 and r = 2
       and tt = 0 and pres = None and str = "''M1''" and nt = 0 and bt = 0]
  by simp

text \<open>
  C5. The claim: every stream that holds the mandatory fields in order, with an allowed
  point count, decodes. It holds of the streams with no property record (above). A Box
  with layer 1, box type 0, five points and one property pair (key 1, value x) before the
  end marker is such a stream, and load fails on it: the kind-specific fields are read,
  then \<^verbatim>\<open>_read_rest\<close> calls \<^verbatim>\<open>next\<close> on the PROPATTR record and raises TypeError.
  No element is returned, so no mandatory field reaches the caller.
\<close>

theorem box_with_property_pair_raises_TypeError:
  "load \<lparr>tag = BOX, data = ByteString []\<rparr>
     (box_stream 1 0 [(0, 0), (0, 1), (1, 1), (1, 0), (0, 0)]
      @ [\<lparr>tag = PROPATTR, data = IntegerList [1]\<rparr>,
         \<lparr>tag = PROPVALUE, data = ByteString ''x''\<rparr>,
         \<lparr>tag = ENDEL, data = ByteString []\<rparr>])
   = (Inl TypeError,
      [\<lparr>tag = PROPVALUE, data = ByteString ''x''\<rparr>, \<lparr>tag = ENDEL, data = ByteString []\<rparr>])"
proof -
  have "load \<lparr>tag = BOX, data = ByteString []\<rparr>
     (common_prefix None None @ box_stream 1 0 [(0, 0), (0, 1), (1, 1), (1, 0), (0, 0)]
      @ [\<lparr>tag = PROPATTR, data = IntegerList [1]\<rparr>,
         \<lparr>tag = PROPVALUE, data = ByteString ''x''\<rparr>,
         \<lparr>tag = ENDEL, data = ByteString []\<rparr>])
   = (Inl TypeError,
      [\<lparr>tag = PROPVALUE, data = ByteString ''x''\<rparr>, \<lparr>tag = ENDEL, data = ByteString []\<rparr>])"
    by (simp add: load_def tag_to_class_map_def truth_value_def init_no_kwargs
        BoxElement_read_element_stream Let_def read_rest_PROPATTR_def next_of_record_def
        exn_simps rec_simps)
  then show ?thesis
    by (simp add: common_prefix_def opt_record_def)
qed

section \<open>Optional fields\<close>

text \<open>
  Streams with no property record. For every element with optional fields (Path,
  StructureRef, ArrayRef, Text), a stream
  in which each optional field is present or not, in the order of the grammar, decodes; an
  optional field that is not in the stream is \<open>None\<close> in the element and one that is in the
  stream holds the value of the stream. The last conjunct is the Text of the
  specification: layer 5, text type 0, no optional record, the point (100, 200), the
  string M1.
\<close>

theorem optional_fields_decoded:
  "(2 \<le> length pts_path \<longrightarrow>
      (\<exists>el. load \<lparr>tag = PATH, data = sd\<rparr>
                (common_prefix fl px @ path_stream l d pt w be ee pts_path
                 @ \<lparr>tag = ENDEL, data = de\<rparr> # rest) = (Inr (Path el), rest)
            \<and> PathElement.path_type el = map_option IntV pt
            \<and> PathElement.width el = map_option IntV w
            \<and> bgn_extn el = map_option IntV be
            \<and> end_extn el = map_option IntV ee))
   \<and> (length pts_sref = 1 \<longrightarrow>
      (\<exists>el. load \<lparr>tag = SREF, data = sd\<rparr>
                (common_prefix fl px @ sref_stream name tb pts_sref
                 @ \<lparr>tag = ENDEL, data = de\<rparr> # rest) = (Inr (SRef el), rest)
            \<and> SRefElement.strans el = tb_strans tb
            \<and> SRefElement.mag el = tb_mag tb
            \<and> SRefElement.angle el = tb_angle tb))
   \<and> (length pts_aref = 3 \<longrightarrow>
      (\<exists>el. load \<lparr>tag = AREF, data = sd\<rparr>
                (common_prefix fl px @ aref_stream name tb c r pts_aref
                 @ \<lparr>tag = ENDEL, data = de\<rparr> # rest) = (Inr (ARef el), rest)
            \<and> SRefElement.strans el = tb_strans tb
            \<and> SRefElement.mag el = tb_mag tb
            \<and> SRefElement.angle el = tb_angle tb))
   \<and> (length pts_text = 1 \<longrightarrow>
      (\<exists>el. load \<lparr>tag = TEXT, data = sd\<rparr>
                (common_prefix fl px @ text_stream l tt pres pt w tb pts_text str
                 @ \<lparr>tag = ENDEL, data = de\<rparr> # rest) = (Inr (Text el), rest)
            \<and> presentation el = pres
            \<and> TextElement.path_type el = map_option IntV pt
            \<and> TextElement.width el = map_option IntV w
            \<and> TextElement.strans el = tb_strans tb
            \<and> TextElement.mag el = tb_mag tb
            \<and> TextElement.angle el = tb_angle tb))
   \<and> load \<lparr>tag = TEXT, data = sd\<rparr>
        (text_stream 5 0 None None None None [(100, 200)] ''M1''
         @ [\<lparr>tag = ENDEL, data = de\<rparr>])
      = (Inr (Text \<lparr>properties = PyList [], layer = IntV 5, text_type = IntV 0,
                    presentation = None, TextElement.path_type = None,
                    TextElement.width = None, TextElement.strans = None,
                    TextElement.mag = None, TextElement.angle = None,
                    TextElement.points = [(100, 200)], string = ByteString ''M1''\<rparr>), [])"
proof -
  have "load \<lparr>tag = TEXT, data = sd\<rparr>
        (common_prefix None None @ text_stream 5 0 None None None None [(100, 200)] ''M1''
         @ \<lparr>tag = ENDEL, data = de\<rparr> # [])
      = (Inr (Text \<lparr>properties = PyList [], layer = IntV 5, text_type = IntV 0,
                    presentation = None, TextElement.path_type = map_option IntV None,
                    TextElement.width = map_option IntV None, TextElement.strans = tb_strans None,
                    TextElement.mag = tb_mag None, TextElement.angle = tb_angle None,
                    TextElement.points = [(100, 200)], string = ByteString ''M1''\<rparr>), [])"
    by (rule load_text_ok) simp
  then have scenario:
    "load \<lparr>tag = TEXT, data = sd\<rparr>
        (text_stream 5 0 None None None None [(100, 200)] ''M1''
         @ [\<lparr>tag = ENDEL, data = de\<rparr>])
      = (Inr (Text \<lparr>properties = PyList [], layer = IntV 5, text_type = IntV 0,
                    presentation = None, TextElement.path_type = None,
                    TextElement.width = None, TextElement.strans = None,
                    TextElement.mag = None, TextElement.angle = None,
                    TextElement.points = [(100, 200)], string = ByteString ''M1''\<rparr>), [])"
    by (simp add: common_prefix_def opt_record_def tb_strans_def tb_mag_def tb_angle_def)
  have path: "2 \<le> length pts_path \<Longrightarrow> \<not> length pts_path < 2"
    by arith
  show ?thesis
    by (intro conjI impI)
       (simp_all add: scenario load_path_ok [OF path] load_sref_ok load_aref_ok load_text_ok)
qed

theorem optional_fields_decoded_witness:
  "2 \<le> length [(0, 0), (5, 5)::point]
   \<and> (\<exists>el. load \<lparr>tag = PATH, data = ByteString []\<rparr>
              (common_prefix None None
               @ path_stream 1 0 None (Some 2) None (Some 4) [(0, 0), (5, 5)]
               @ \<lparr>tag = ENDEL, data = ByteString []\<rparr> # []) = (Inr (Path el), [])
          \<and> PathElement.path_type el = None \<and> PathElement.width el = Some (IntV 2)
          \<and> bgn_extn el = None \<and> end_extn el = Some (IntV 4))
   \<and> length [(7, 8)::point] = 1
   \<and> (\<exists>el. load \<lparr>tag = SREF, data = ByteString []\<rparr>
              (common_prefix None None
               @ sref_stream ''CELL_A'' (Some (IntegerList [0], None, Some 90)) [(7, 8)]
               @ \<lparr>tag = ENDEL, data = ByteString []\<rparr> # []) = (Inr (SRef el), [])
          \<and> SRefElement.strans el = Some (IntegerList [0]) \<and> SRefElement.mag el = None
          \<and> SRefElement.angle el = Some (RealV 90))
   \<and> length [(0, 0), (30, 0), (0, 20)::point] = 3
   \<and> (\<exists>el. load \<lparr>tag = AREF, data = ByteString []\<rparr>
              (common_prefix None None
               @ aref_stream ''CELL_A'' (Some (IntegerList [0], None, Some 90)) 3 2
                   [(0, 0), (30, 0), (0, 20)]
               @ \<lparr>tag = ENDEL, data = ByteString []\<rparr> # []) = (Inr (ARef el), [])
          \<and> SRefElement.strans el = Some (IntegerList [0]) \<and> SRefElement.mag el = None
          \<and> SRefElement.angle el = Some (RealV 90))
   \<and> length [(100, 200)::point] = 1
   \<and> (\<exists>el. load \<lparr>tag = TEXT, data = ByteString []\<rparr>
              (common_prefix None None
               @ text_stream 1 0 None None (Some 2) (Some (IntegerList [0], None, Some 90))
                   [(100, 200)] ''M1''
               @ \<lparr>tag = ENDEL, data = ByteString []\<rparr> # []) = (Inr (Text el), [])
          \<and> presentation el = None \<and> TextElement.path_type el = None
          \<and> TextElement.width el = Some (IntV 2)
          \<and> TextElement.strans el = Some (IntegerList [0]) \<and> TextElement.mag el = None
          \<and> TextElement.angle el = Some (RealV 90))"
  using optional_fields_decoded
    [where pts_path = "[(0, 0), (5, 5)]" and pts_sref = "[(7, 8)]"
       and pts_aref = "[(0, 0), (30, 0), (0, 20)]" and pts_text = "[(100, 200)]"
       and sd = "ByteString []" and de = "ByteString []" and fl = None and px = None
       and l = 1 and d = 0 and rest = "[]"
       and pt = None and w = "Some 2" and be = None and ee = "Some 4"
       and name = "''CELL_A''" and tb = "Some (IntegerList [0], None, Some 90)"
       and c = 3 and r = 2 and tt = 0 and pres = None and str = "''M1''"]
  by (simp add: tb_strans_def tb_mag_def tb_angle_def)



text \<open>
  C6. The claim: every stream with zero, some or all optional fields in their order
  decodes. It holds of the streams with no property record (above). A Path with a WIDTH
  and an ENDEXTN record, in order, and one property pair (key 1, value x) before the end
  marker is such a stream, and load fails on it with the TypeError of \<^verbatim>\<open>_read_rest\<close>.
\<close>

theorem path_with_optional_fields_and_property_pair_raises_TypeError:
  "load \<lparr>tag = PATH, data = ByteString []\<rparr>
     (path_stream 1 0 None (Some 2) None (Some 4) [(0, 0), (5, 5)]
      @ [\<lparr>tag = PROPATTR, data = IntegerList [1]\<rparr>,
         \<lparr>tag = PROPVALUE, data = ByteString ''x''\<rparr>,
         \<lparr>tag = ENDEL, data = ByteString []\<rparr>])
   = (Inl TypeError,
      [\<lparr>tag = PROPVALUE, data = ByteString ''x''\<rparr>, \<lparr>tag = ENDEL, data = ByteString []\<rparr>])"
proof -
  have "load \<lparr>tag = PATH, data = ByteString []\<rparr>
     (common_prefix None None @ path_stream 1 0 None (Some 2) None (Some 4) [(0, 0), (5, 5)]
      @ [\<lparr>tag = PROPATTR, data = IntegerList [1]\<rparr>,
         \<lparr>tag = PROPVALUE, data = ByteString ''x''\<rparr>,
         \<lparr>tag = ENDEL, data = ByteString []\<rparr>])
   = (Inl TypeError,
      [\<lparr>tag = PROPVALUE, data = ByteString ''x''\<rparr>, \<lparr>tag = ENDEL, data = ByteString []\<rparr>])"
    by (simp add: load_def tag_to_class_map_def truth_value_def init_no_kwargs
        PathElement_read_element_stream Let_def read_rest_PROPATTR_def next_of_record_def
        exn_simps rec_simps)
  then show ?thesis
    by (simp add: common_prefix_def opt_record_def)
qed

section \<open>The trailer\<close>

lemma read_rest_PROPATTR_fails:
  "\<exists>e. read_rest_PROPATTR rec self = (Inl e, self)"
  by (simp add: read_rest_PROPATTR_def next_of_record_def bindE_def liftE_def
      split: sum.splits)

lemma read_rest_on_PROPATTR_fails:
  "tag rec = PROPATTR \<Longrightarrow> \<exists>e. ElementBase_read_rest (self, rec # recs) = (Inl e, (self, recs))"
  using read_rest_PROPATTR_fails [of rec self] by auto

lemma default_properties_reject_setitem:
  "setitem (properties (ElementBase_init no_kwargs)) k v \<in> {Inl IndexError, Inl TypeError}"
  by (cases k) (simp_all add: ElementBase_init_def no_kwargs_def kwargs_get_def)

text \<open>
  C2. The claim: any number of (PROPATTR, PROPVALUE) pairs followed by ENDEL decodes into a
  property mapping with exactly the supplied keys. On a Boundary with one pair (key 1,
  value x) the loop of \<^verbatim>\<open>_read_rest\<close> calls \<^verbatim>\<open>next\<close> on the PROPATTR record instead of
  the generator, which raises TypeError; the PROPVALUE and ENDEL records are left in the
  generator and no element is returned.
\<close>

theorem property_pair_raises_TypeError:
  "load \<lparr>tag = BOUNDARY, data = ByteString []\<rparr>
     (boundary_stream 1 0 [(0, 0), (0, 10), (10, 10), (10, 0)]
      @ [\<lparr>tag = PROPATTR, data = IntegerList [1]\<rparr>,
         \<lparr>tag = PROPVALUE, data = ByteString ''x''\<rparr>,
         \<lparr>tag = ENDEL, data = ByteString []\<rparr>])
   = (Inl TypeError,
      [\<lparr>tag = PROPVALUE, data = ByteString ''x''\<rparr>, \<lparr>tag = ENDEL, data = ByteString []\<rparr>])"
  by (simp add: load_def tag_to_class_map_def truth_value_def init_no_kwargs
      BoundaryElement_read_element_def ElementWithLayerAndDataType_read_start_def
      ElementWithLayer_read_start_def ElementBase_read_start_def ignore_record_def
      boundary_stream_def read_rest_PROPATTR_def next_of_record_def exn_simps rec_simps)

section \<open>The point count of a decoded element\<close>






















section \<open>The layer and data type prefix\<close>

lemma ElementWithLayer_read_start_failure:
  assumes "ElementWithLayer_read_start (self, recs) = (Inl e, (self', recs'))"
  shows "self' = self"
  using assms
  by (auto simp: ElementWithLayer_read_start_def ElementBase_read_start_def ignore_record_def
      bindE_def next_rec_def returnE_def liftE_def update_self_def
      split: list.splits if_splits sum.splits prod.splits)

text \<open>
  C9. The two prefix parsers are methods of the base classes, so they are the parsers of
  every class that carries a layer (Boundary, Path, Text, Node, Box). Where the record
  after the common prefix is no LAYER record, or is a LAYER record whose data has not
  exactly one item, \<^verbatim>\<open>ElementWithLayer._read_start\<close> raises (UnexpectedTag, SizeMismatch) and
  \<^verbatim>\<open>self\<close> is as it was: the layer is not set. Where the record after a good LAYER record
  is no DATATYPE record or has not exactly one item,
  \<^verbatim>\<open>ElementWithLayerAndDataType._read_start\<close> raises and the data type is not set. A bad
  LAYER record makes load fail for each of the five classes.
\<close>

theorem layer_prefix_rejects:
  "(tag r_tag \<notin> {LAYER, ELFLAGS, PLEX} \<longrightarrow>
      ElementWithLayer_read_start (self, common_prefix fl px @ r_tag # rs)
      = (Inl UnexpectedTag, (self, rs)))
   \<and> (tag r_size = LAYER \<and> length (items (data r_size)) \<noteq> 1 \<longrightarrow>
      ElementWithLayer_read_start (self, common_prefix fl px @ r_size # rs)
      = (Inl SizeMismatch, (self, rs)))
   \<and> (tag r_size = LAYER \<and> length (items (data r_size)) \<noteq> 1 \<longrightarrow>
      ElementWithLayerAndDataType_read_start (selfd, common_prefix fl px @ r_size # rs)
      = (Inl SizeMismatch, (selfd, rs)))
   \<and> (tag q_tag \<noteq> DATATYPE \<longrightarrow>
      ElementWithLayerAndDataType_read_start
        (selfd, common_prefix fl px @ int_record LAYER l # q_tag # rs)
      = (Inl UnexpectedTag, (selfd\<lparr>layer := IntV l\<rparr>, rs)))
   \<and> (tag q_size = DATATYPE \<and> length (items (data q_size)) \<noteq> 1 \<longrightarrow>
      ElementWithLayerAndDataType_read_start
        (selfd, common_prefix fl px @ int_record LAYER l # q_size # rs)
      = (Inl SizeMismatch, (selfd\<lparr>layer := IntV l\<rparr>, rs)))
   \<and> (tag lastrec \<in> {BOUNDARY, PATH, TEXT, NODE, BOX}
        \<and> tag r_size = LAYER \<and> length (items (data r_size)) \<noteq> 1 \<longrightarrow>
      load lastrec (common_prefix fl px @ r_size # rs) = (Inl SizeMismatch, rs))
   \<and> (tag lastrec \<in> {BOUNDARY, PATH, TEXT, NODE, BOX}
        \<and> tag r_tag \<notin> {LAYER, ELFLAGS, PLEX} \<longrightarrow>
      load lastrec (common_prefix fl px @ r_tag # rs) = (Inl UnexpectedTag, rs))"
proof -
  have layer_tag: "ElementWithLayer_read_start (s, common_prefix fl px @ r_tag # rs)
      = (Inl UnexpectedTag, (s, rs))"
    if "tag r_tag \<notin> {LAYER, ELFLAGS, PLEX}" for s :: "'z ElementWithLayer_scheme"
    using that
    by (simp add: ElementWithLayer_read_start_def ElementBase_read_start_prefix exn_simps
        check_tag_def)
  have layer_size: "ElementWithLayer_read_start (s, common_prefix fl px @ r_size # rs)
      = (Inl SizeMismatch, (s, rs))"
    if "tag r_size = LAYER" "length (items (data r_size)) \<noteq> 1"
    for s :: "'z ElementWithLayer_scheme"
    using that
    by (simp add: ElementWithLayer_read_start_def ElementBase_read_start_prefix exn_simps
        check_tag_def check_size_def)
  have dt_layer: "ElementWithLayerAndDataType_read_start
        (selfd, common_prefix fl px @ r_size # rs) = (Inl SizeMismatch, (selfd, rs))"
    if "tag r_size = LAYER" "length (items (data r_size)) \<noteq> 1"
    using layer_size [OF that, of selfd]
    by (simp add: ElementWithLayerAndDataType_read_start_def bindE_def)
  have dt_tag: "ElementWithLayerAndDataType_read_start
        (selfd, common_prefix fl px @ int_record LAYER l # q_tag # rs)
      = (Inl UnexpectedTag, (selfd\<lparr>layer := IntV l\<rparr>, rs))"
    if "tag q_tag \<noteq> DATATYPE"
    using that
    by (simp add: ElementWithLayerAndDataType_read_start_def int_record_def
        ElementWithLayer_read_start_stream exn_simps check_tag_def)
  have dt_size: "ElementWithLayerAndDataType_read_start
        (selfd, common_prefix fl px @ int_record LAYER l # q_size # rs)
      = (Inl SizeMismatch, (selfd\<lparr>layer := IntV l\<rparr>, rs))"
    if "tag q_size = DATATYPE" "length (items (data q_size)) \<noteq> 1"
    using that
    by (simp add: ElementWithLayerAndDataType_read_start_def int_record_def
        ElementWithLayer_read_start_stream exn_simps check_tag_def check_size_def)
  have dt_layer_tag: "ElementWithLayerAndDataType_read_start
        (s, common_prefix fl px @ r_tag # rs) = (Inl UnexpectedTag, (s, rs))"
    if "tag r_tag \<notin> {LAYER, ELFLAGS, PLEX}" for s :: "'z ElementWithLayerAndDataType_scheme"
    using layer_tag [OF that, of s]
    by (simp add: ElementWithLayerAndDataType_read_start_def bindE_def)
  have dt_layer_size: "ElementWithLayerAndDataType_read_start
        (s, common_prefix fl px @ r_size # rs) = (Inl SizeMismatch, (s, rs))"
    if "tag r_size = LAYER" "length (items (data r_size)) \<noteq> 1"
    for s :: "'z ElementWithLayerAndDataType_scheme"
    using layer_size [OF that, of s]
    by (simp add: ElementWithLayerAndDataType_read_start_def bindE_def)
  have load_size: "load lastrec (common_prefix fl px @ r_size # rs) = (Inl SizeMismatch, rs)"
    if "tag lastrec \<in> {BOUNDARY, PATH, TEXT, NODE, BOX}"
      "tag r_size = LAYER" "length (items (data r_size)) \<noteq> 1"
    using that(1)
    by (auto simp: layer_size [OF that(2,3)] dt_layer_size [OF that(2,3)]
        load_def tag_to_class_map_def truth_value_def
        BoundaryElement_read_element_def PathElement_read_element_def
        TextElement_read_element_def NodeElement_read_element_def
        BoxElement_read_element_def bindE_def)
  have load_tag: "load lastrec (common_prefix fl px @ r_tag # rs) = (Inl UnexpectedTag, rs)"
    if "tag lastrec \<in> {BOUNDARY, PATH, TEXT, NODE, BOX}"
      "tag r_tag \<notin> {LAYER, ELFLAGS, PLEX}"
    using that(1)
    by (auto simp: layer_tag [OF that(2)] dt_layer_tag [OF that(2)]
        load_def tag_to_class_map_def truth_value_def
        BoundaryElement_read_element_def PathElement_read_element_def
        TextElement_read_element_def NodeElement_read_element_def
        BoxElement_read_element_def bindE_def)
  show ?thesis
    using layer_tag [of self] layer_size [of self] dt_layer dt_tag dt_size load_size load_tag
    by blast
qed

theorem layer_prefix_rejects_witness:
  "tag \<lparr>tag = XY, data = PointList []\<rparr> \<notin> {LAYER, ELFLAGS, PLEX}
   \<and> ElementWithLayer_read_start
        (NodeElement_init no_kwargs,
         common_prefix None None @ \<lparr>tag = XY, data = PointList []\<rparr> # [])
      = (Inl UnexpectedTag, (NodeElement_init no_kwargs, []))
   \<and> tag \<lparr>tag = LAYER, data = IntegerList [1, 2]\<rparr> = LAYER
   \<and> length (items (data \<lparr>tag = LAYER, data = IntegerList [1, 2]\<rparr>)) \<noteq> 1
   \<and> ElementWithLayer_read_start
        (NodeElement_init no_kwargs,
         common_prefix None None @ \<lparr>tag = LAYER, data = IntegerList [1, 2]\<rparr> # [])
      = (Inl SizeMismatch, (NodeElement_init no_kwargs, []))
   \<and> ElementWithLayerAndDataType_read_start
        (BoundaryElement_init no_kwargs,
         common_prefix None None @ \<lparr>tag = LAYER, data = IntegerList [1, 2]\<rparr> # [])
      = (Inl SizeMismatch, (BoundaryElement_init no_kwargs, []))
   \<and> tag \<lparr>tag = XY, data = PointList []\<rparr> \<noteq> DATATYPE
   \<and> ElementWithLayerAndDataType_read_start
        (BoundaryElement_init no_kwargs,
         common_prefix None None @ int_record LAYER 7
         # \<lparr>tag = XY, data = PointList []\<rparr> # [])
      = (Inl UnexpectedTag, ((BoundaryElement_init no_kwargs)\<lparr>layer := IntV 7\<rparr>, []))
   \<and> tag \<lparr>tag = DATATYPE, data = IntegerList [0, 0]\<rparr> = DATATYPE
   \<and> length (items (data \<lparr>tag = DATATYPE, data = IntegerList [0, 0]\<rparr>)) \<noteq> 1
   \<and> ElementWithLayerAndDataType_read_start
        (BoundaryElement_init no_kwargs,
         common_prefix None None @ int_record LAYER 7
         # \<lparr>tag = DATATYPE, data = IntegerList [0, 0]\<rparr> # [])
      = (Inl SizeMismatch, ((BoundaryElement_init no_kwargs)\<lparr>layer := IntV 7\<rparr>, []))
   \<and> tag \<lparr>tag = BOX, data = ByteString []\<rparr> \<in> {BOUNDARY, PATH, TEXT, NODE, BOX}
   \<and> load \<lparr>tag = BOX, data = ByteString []\<rparr>
        (common_prefix None None @ \<lparr>tag = LAYER, data = IntegerList [1, 2]\<rparr> # [])
      = (Inl SizeMismatch, [])
   \<and> load \<lparr>tag = BOX, data = ByteString []\<rparr>
        (common_prefix None None @ \<lparr>tag = XY, data = PointList []\<rparr> # [])
      = (Inl UnexpectedTag, [])"
  using layer_prefix_rejects
    [where r_tag = "\<lparr>tag = XY, data = PointList []\<rparr>"
       and r_size = "\<lparr>tag = LAYER, data = IntegerList [1, 2]\<rparr>"
       and q_tag = "\<lparr>tag = XY, data = PointList []\<rparr>"
       and q_size = "\<lparr>tag = DATATYPE, data = IntegerList [0, 0]\<rparr>"
       and lastrec = "\<lparr>tag = BOX, data = ByteString []\<rparr>"
       and self = "NodeElement_init no_kwargs" and selfd = "BoundaryElement_init no_kwargs"
       and fl = None and px = None and l = 7 and rs = "[]"]
  by simp



section \<open>Optional fields out of their order\<close>

lemmas late_defs =
  arrives_late_def lacks_strans_def path_slots_def transform_slots_def text_slots_def
  present_def tb_mag_def tb_angle_def

lemma path_rejects_late:
  assumes "arrives_late (tag x) (path_slots pt w be ee)"
  shows "load \<lparr>tag = PATH, data = sd\<rparr>
           (common_prefix fl px @ [int_record LAYER l, int_record DATATYPE d]
            @ opt_int PATHTYPE pt @ opt_int WIDTH w @ opt_int BGNEXTN be @ opt_int ENDEXTN ee
            @ x # rs)
         = (Inl UnexpectedTag, rs)"
  using assms
  by (cases pt; cases w; cases be; cases ee)
     (auto simp: late_defs load_def tag_to_class_map_def truth_value_def
        PathElement_read_element_def opt_int_def int_record_def
        ElementWithLayerAndDataType_read_start_stream exn_simps check_tag_def check_size_def
        data0_def split: if_splits)

lemma sref_read_start_late:
  assumes "arrives_late (tag x) (transform_slots tb) \<or> lacks_strans (tag x) tb"
  shows "SRefElement_read_start
           (self, common_prefix fl px @ \<lparr>tag = SNAME, data = nm\<rparr> # transform_block tb @ x # rs)
         = (Inr x, (self\<lparr>struct_name := nm,
              SRefElement.strans :=
                (case tb of None \<Rightarrow> SRefElement.strans self | Some (s, m, a) \<Rightarrow> Some s),
              SRefElement.mag :=
                (case tb of None \<Rightarrow> SRefElement.mag self
                 | Some (s, None, a) \<Rightarrow> SRefElement.mag self
                 | Some (s, Some v, a) \<Rightarrow> Some (RealV v)),
              SRefElement.angle :=
                (case tb of None \<Rightarrow> SRefElement.angle self
                 | Some (s, m, None) \<Rightarrow> SRefElement.angle self
                 | Some (s, m, Some v) \<Rightarrow> Some (RealV v))\<rparr>, rs))
         \<and> tag x \<in> {STRANS, MAG, ANGLE}"
proof (cases tb)
  case None
  with assms show ?thesis
    by (auto simp: late_defs SRefElement_read_start_def transform_block_def
        ElementBase_read_start_prefix exn_simps check_tag_def split: if_splits)
next
  case (Some t)
  obtain s m a where t: "t = (s, m, a)" by (cases t)
  from assms show ?thesis
    unfolding Some t
    by (cases m; cases a)
       (auto simp: late_defs SRefElement_read_start_def transform_block_def opt_real_def
          real_record_def ElementBase_read_start_prefix exn_simps check_tag_def
          check_size_def data0_def split: if_splits)
qed

lemma sref_rejects_late:
  assumes "arrives_late (tag x) (transform_slots tb) \<or> lacks_strans (tag x) tb"
  shows "load \<lparr>tag = SREF, data = sd\<rparr>
           (common_prefix fl px @ \<lparr>tag = SNAME, data = nm\<rparr> # transform_block tb @ x # rs)
         = (Inl UnexpectedTag, rs)"
  using sref_read_start_late [OF assms, of "SRefElement_init no_kwargs" fl px nm rs]
  by (auto simp: load_def tag_to_class_map_def truth_value_def SRefElement_read_element_def
      bindE_def liftE_def check_tag_def)

lemma aref_rejects_late:
  assumes "arrives_late (tag x) (transform_slots tb) \<or> lacks_strans (tag x) tb"
  shows "load \<lparr>tag = AREF, data = sd\<rparr>
           (common_prefix fl px @ \<lparr>tag = SNAME, data = nm\<rparr> # transform_block tb @ x # rs)
         = (Inl UnexpectedTag, rs)"
  using sref_read_start_late [OF assms, of "ARefElement_init no_kwargs" fl px nm rs]
  by (auto simp: load_def tag_to_class_map_def truth_value_def ARefElement_read_element_def
      bindE_def liftE_def check_tag_def)

lemma text_rejects_late:
  assumes "arrives_late (tag x) (text_slots pres pt w tb) \<or> lacks_strans (tag x) tb"
  shows "load \<lparr>tag = TEXT, data = sd\<rparr>
           (common_prefix fl px @ [int_record LAYER l, int_record TEXTTYPE tt]
            @ opt_record PRESENTATION pres @ opt_int PATHTYPE pt @ opt_int WIDTH w
            @ transform_block tb @ x # rs)
         = (Inl UnexpectedTag, rs)"
proof (cases tb)
  case None
  with assms show ?thesis
    by (cases pres; cases pt; cases w)
       (auto simp: late_defs load_def tag_to_class_map_def truth_value_def
          TextElement_read_element_def opt_int_def opt_record_def int_record_def
          transform_block_def ElementWithLayer_read_start_stream exn_simps check_tag_def
          check_size_def data0_def split: if_splits)
next
  case (Some t)
  obtain s m a where t: "t = (s, m, a)" by (cases t)
  from assms show ?thesis
    unfolding Some t
    by (cases pres; cases pt; cases w; cases m; cases a)
       (auto simp: late_defs load_def tag_to_class_map_def truth_value_def
          TextElement_read_element_def opt_int_def opt_record_def opt_real_def int_record_def
          real_record_def transform_block_def ElementWithLayer_read_start_stream exn_simps
          check_tag_def check_size_def data0_def split: if_splits)
qed

text \<open>
  C7. For every element with a chain of optional fields (Path, StructureRef, ArrayRef,
  Text): after the optional records that are in the order of the grammar, a record of the
  chain that arrives late (its own slot or a later one is filled already), or a MAG or
  ANGLE record with no STRANS record before it, is not taken as a field. The decoder
  expects the next mandatory record there (XY, or COLROW in an ArrayRef), so load fails
  with UnexpectedTag and returns no element, whatever follows. A Path with its WIDTH
  record before its PATHTYPE record is the case \<open>pt = None\<close>, \<open>w = Some v\<close> with a
  PATHTYPE record for \<open>x\<close>.
\<close>

theorem out_of_order_optional_rejected:
  "(arrives_late (tag x_path) (path_slots pt w be ee) \<longrightarrow>
      load \<lparr>tag = PATH, data = sd\<rparr>
        (common_prefix fl px @ [int_record LAYER l, int_record DATATYPE d]
         @ opt_int PATHTYPE pt @ opt_int WIDTH w @ opt_int BGNEXTN be @ opt_int ENDEXTN ee
         @ x_path # rs)
      = (Inl UnexpectedTag, rs))
   \<and> (arrives_late (tag x_sref) (transform_slots tb) \<or> lacks_strans (tag x_sref) tb \<longrightarrow>
      load \<lparr>tag = SREF, data = sd\<rparr>
        (common_prefix fl px @ \<lparr>tag = SNAME, data = nm\<rparr> # transform_block tb @ x_sref # rs)
      = (Inl UnexpectedTag, rs))
   \<and> (arrives_late (tag x_sref) (transform_slots tb) \<or> lacks_strans (tag x_sref) tb \<longrightarrow>
      load \<lparr>tag = AREF, data = sd\<rparr>
        (common_prefix fl px @ \<lparr>tag = SNAME, data = nm\<rparr> # transform_block tb @ x_sref # rs)
      = (Inl UnexpectedTag, rs))
   \<and> (arrives_late (tag x_text) (text_slots pres pt w tb) \<or> lacks_strans (tag x_text) tb \<longrightarrow>
      load \<lparr>tag = TEXT, data = sd\<rparr>
        (common_prefix fl px @ [int_record LAYER l, int_record TEXTTYPE tt]
         @ opt_record PRESENTATION pres @ opt_int PATHTYPE pt @ opt_int WIDTH w
         @ transform_block tb @ x_text # rs)
      = (Inl UnexpectedTag, rs))"
  by (intro conjI impI;
      (erule path_rejects_late | erule sref_rejects_late | erule aref_rejects_late
       | erule text_rejects_late))

theorem out_of_order_optional_rejected_witness:
  "arrives_late (tag (int_record PATHTYPE 0)) (path_slots None (Some 2) None None)
   \<and> load \<lparr>tag = PATH, data = ByteString []\<rparr>
        (common_prefix None None @ [int_record LAYER 1, int_record DATATYPE 0]
         @ opt_int PATHTYPE None @ opt_int WIDTH (Some 2) @ opt_int BGNEXTN None
         @ opt_int ENDEXTN None
         @ int_record PATHTYPE 0
         # [xy_record [(0, 0), (5, 5)], \<lparr>tag = ENDEL, data = ByteString []\<rparr>])
      = (Inl UnexpectedTag, [xy_record [(0, 0), (5, 5)], \<lparr>tag = ENDEL, data = ByteString []\<rparr>])
   \<and> (arrives_late (tag (real_record MAG 2))
          (transform_slots (Some (IntegerList [0], None, Some 90)))
        \<or> lacks_strans (tag (real_record MAG 2)) (Some (IntegerList [0], None, Some 90)))
   \<and> load \<lparr>tag = SREF, data = ByteString []\<rparr>
        (common_prefix None None @ \<lparr>tag = SNAME, data = ByteString ''CELL_A''\<rparr>
         # transform_block (Some (IntegerList [0], None, Some 90))
         @ real_record MAG 2
         # [xy_record [(0, 0), (5, 5)], \<lparr>tag = ENDEL, data = ByteString []\<rparr>])
      = (Inl UnexpectedTag, [xy_record [(0, 0), (5, 5)], \<lparr>tag = ENDEL, data = ByteString []\<rparr>])
   \<and> load \<lparr>tag = AREF, data = ByteString []\<rparr>
        (common_prefix None None @ \<lparr>tag = SNAME, data = ByteString ''CELL_A''\<rparr>
         # transform_block (Some (IntegerList [0], None, Some 90))
         @ real_record MAG 2
         # [xy_record [(0, 0), (5, 5)], \<lparr>tag = ENDEL, data = ByteString []\<rparr>])
      = (Inl UnexpectedTag, [xy_record [(0, 0), (5, 5)], \<lparr>tag = ENDEL, data = ByteString []\<rparr>])
   \<and> (arrives_late (tag \<lparr>tag = PRESENTATION, data = IntegerList [0]\<rparr>)
          (text_slots None None (Some 2) (Some (IntegerList [0], None, Some 90)))
        \<or> lacks_strans (tag \<lparr>tag = PRESENTATION, data = IntegerList [0]\<rparr>)
          (Some (IntegerList [0], None, Some 90)))
   \<and> load \<lparr>tag = TEXT, data = ByteString []\<rparr>
        (common_prefix None None @ [int_record LAYER 1, int_record TEXTTYPE 0]
         @ opt_record PRESENTATION None @ opt_int PATHTYPE None @ opt_int WIDTH (Some 2)
         @ transform_block (Some (IntegerList [0], None, Some 90))
         @ \<lparr>tag = PRESENTATION, data = IntegerList [0]\<rparr>
         # [xy_record [(0, 0), (5, 5)], \<lparr>tag = ENDEL, data = ByteString []\<rparr>])
      = (Inl UnexpectedTag, [xy_record [(0, 0), (5, 5)], \<lparr>tag = ENDEL, data = ByteString []\<rparr>])"
proof -
  have p_late: "arrives_late (tag (int_record PATHTYPE 0)) (path_slots None (Some 2) None None)"
    by (simp add: late_defs int_record_def)
  have s_late: "arrives_late (tag (real_record MAG 2))
                (transform_slots (Some (IntegerList [0], None, Some 90)))
              \<or> lacks_strans (tag (real_record MAG 2)) (Some (IntegerList [0], None, Some 90))"
    by (simp add: late_defs real_record_def)
  have t_late: "arrives_late (tag \<lparr>tag = PRESENTATION, data = IntegerList [0]\<rparr>)
                (text_slots None None (Some 2) (Some (IntegerList [0], None, Some 90)))
              \<or> lacks_strans (tag \<lparr>tag = PRESENTATION, data = IntegerList [0]\<rparr>)
                (Some (IntegerList [0], None, Some 90))"
    by (simp add: late_defs)
  show ?thesis
    using p_late s_late t_late
      out_of_order_optional_rejected
        [where x_path = "int_record PATHTYPE 0" and pt = None and w = "Some 2" and be = None
           and ee = None and x_sref = "real_record MAG 2"
           and tb = "Some (IntegerList [0], None, Some 90)"
           and x_text = "\<lparr>tag = PRESENTATION, data = IntegerList [0]\<rparr>" and pres = None
           and sd = "ByteString []" and fl = None and px = None and l = 1 and d = 0
           and tt = 0 and nm = "ByteString ''CELL_A''"
           and rs = "[xy_record [(0, 0), (5, 5)], \<lparr>tag = ENDEL, data = ByteString []\<rparr>]"]
    by simp
qed

section \<open>The transform block\<close>

text \<open>
  Streams with no property record. In a StructureRef (and an ArrayRef, which inherits the
  parser) and in a Text, MAG and ANGLE are looked for only after a STRANS record: a MAG or ANGLE record that comes with no
  STRANS record before it is not consumed as a field, the decoder expects the XY record
  there and load fails with UnexpectedTag. A STRANS record followed by neither MAG nor
  ANGLE is accepted: the element is decoded with its strans set and mag and angle absent.
\<close>

theorem transform_block_needs_strans:
  "(tag x \<in> {MAG, ANGLE} \<longrightarrow>
      load \<lparr>tag = SREF, data = sd\<rparr>
        (common_prefix fl px @ \<lparr>tag = SNAME, data = ByteString name\<rparr> # x # rs)
      = (Inl UnexpectedTag, rs))
   \<and> (tag x \<in> {MAG, ANGLE} \<longrightarrow>
      load \<lparr>tag = TEXT, data = sd\<rparr>
        (common_prefix fl px @ [int_record LAYER l, int_record TEXTTYPE tt]
         @ opt_record PRESENTATION pres @ opt_int PATHTYPE pt @ opt_int WIDTH w @ x # rs)
      = (Inl UnexpectedTag, rs))
   \<and> (length pts_sref = 1 \<longrightarrow>
      load \<lparr>tag = SREF, data = sd\<rparr>
        (common_prefix fl px @ sref_stream name (Some (s, None, None)) pts_sref
         @ \<lparr>tag = ENDEL, data = de\<rparr> # rest)
      = (Inr (SRef \<lparr>properties = PyList [], struct_name = ByteString name,
                    SRefElement.strans = Some s, SRefElement.mag = None,
                    SRefElement.angle = None, SRefElement.points = pts_sref\<rparr>), rest))
   \<and> (length pts_text = 1 \<longrightarrow>
      load \<lparr>tag = TEXT, data = sd\<rparr>
        (common_prefix fl px @ text_stream l tt pres pt w (Some (s, None, None)) pts_text str
         @ \<lparr>tag = ENDEL, data = de\<rparr> # rest)
      = (Inr (Text \<lparr>properties = PyList [], layer = IntV l, text_type = IntV tt,
                    presentation = pres, TextElement.path_type = map_option IntV pt,
                    TextElement.width = map_option IntV w, TextElement.strans = Some s,
                    TextElement.mag = None, TextElement.angle = None,
                    TextElement.points = pts_text, string = ByteString str\<rparr>), rest))"
proof -
  have sref_no: "load \<lparr>tag = SREF, data = sd\<rparr>
        (common_prefix fl px @ \<lparr>tag = SNAME, data = ByteString name\<rparr> # x # rs)
      = (Inl UnexpectedTag, rs)" if "tag x \<in> {MAG, ANGLE}"
    using that sref_rejects_late [of x None sd fl px "ByteString name" rs]
    by (auto simp: lacks_strans_def transform_block_def)
  have text_no: "load \<lparr>tag = TEXT, data = sd\<rparr>
        (common_prefix fl px @ [int_record LAYER l, int_record TEXTTYPE tt]
         @ opt_record PRESENTATION pres @ opt_int PATHTYPE pt @ opt_int WIDTH w @ x # rs)
      = (Inl UnexpectedTag, rs)" if "tag x \<in> {MAG, ANGLE}"
    using that text_rejects_late [of x pres pt w None sd fl px l tt rs]
    by (auto simp: lacks_strans_def transform_block_def)
  have sref_yes: "load \<lparr>tag = SREF, data = sd\<rparr>
        (common_prefix fl px @ sref_stream name (Some (s, None, None)) pts_sref
         @ \<lparr>tag = ENDEL, data = de\<rparr> # rest)
      = (Inr (SRef \<lparr>properties = PyList [], struct_name = ByteString name,
                    SRefElement.strans = Some s, SRefElement.mag = None,
                    SRefElement.angle = None, SRefElement.points = pts_sref\<rparr>), rest)"
    if "length pts_sref = 1"
    using that by (simp add: load_sref_ok tb_strans_def tb_mag_def tb_angle_def)
  have text_yes: "load \<lparr>tag = TEXT, data = sd\<rparr>
        (common_prefix fl px @ text_stream l tt pres pt w (Some (s, None, None)) pts_text str
         @ \<lparr>tag = ENDEL, data = de\<rparr> # rest)
      = (Inr (Text \<lparr>properties = PyList [], layer = IntV l, text_type = IntV tt,
                    presentation = pres, TextElement.path_type = map_option IntV pt,
                    TextElement.width = map_option IntV w, TextElement.strans = Some s,
                    TextElement.mag = None, TextElement.angle = None,
                    TextElement.points = pts_text, string = ByteString str\<rparr>), rest)"
    if "length pts_text = 1"
    using that by (simp add: load_text_ok tb_strans_def tb_mag_def tb_angle_def)
  show ?thesis
    by (intro conjI impI; (erule sref_no | erule text_no | erule sref_yes | erule text_yes))
qed

theorem transform_block_needs_strans_witness:
  "tag (real_record MAG 2) \<in> {MAG, ANGLE}
   \<and> load \<lparr>tag = SREF, data = ByteString []\<rparr>
        (common_prefix None None @ \<lparr>tag = SNAME, data = ByteString ''CELL_A''\<rparr>
         # real_record MAG 2
         # [xy_record [(7, 8)], \<lparr>tag = ENDEL, data = ByteString []\<rparr>])
      = (Inl UnexpectedTag, [xy_record [(7, 8)], \<lparr>tag = ENDEL, data = ByteString []\<rparr>])
   \<and> load \<lparr>tag = TEXT, data = ByteString []\<rparr>
        (common_prefix None None @ [int_record LAYER 5, int_record TEXTTYPE 0]
         @ opt_record PRESENTATION None @ opt_int PATHTYPE None @ opt_int WIDTH None
         @ real_record MAG 2
         # [xy_record [(7, 8)], \<lparr>tag = ENDEL, data = ByteString []\<rparr>])
      = (Inl UnexpectedTag, [xy_record [(7, 8)], \<lparr>tag = ENDEL, data = ByteString []\<rparr>])
   \<and> length [(7, 8)::point] = 1
   \<and> load \<lparr>tag = SREF, data = ByteString []\<rparr>
        (common_prefix None None
         @ sref_stream ''CELL_A'' (Some (IntegerList [0], None, None)) [(7, 8)]
         @ \<lparr>tag = ENDEL, data = ByteString []\<rparr> # [])
      = (Inr (SRef \<lparr>properties = PyList [], struct_name = ByteString ''CELL_A'',
                    SRefElement.strans = Some (IntegerList [0]), SRefElement.mag = None,
                    SRefElement.angle = None, SRefElement.points = [(7, 8)]\<rparr>), [])
   \<and> load \<lparr>tag = TEXT, data = ByteString []\<rparr>
        (common_prefix None None
         @ text_stream 5 0 None None None (Some (IntegerList [0], None, None)) [(7, 8)] ''M1''
         @ \<lparr>tag = ENDEL, data = ByteString []\<rparr> # [])
      = (Inr (Text \<lparr>properties = PyList [], layer = IntV 5, text_type = IntV 0,
                    presentation = None, TextElement.path_type = None,
                    TextElement.width = None, TextElement.strans = Some (IntegerList [0]),
                    TextElement.mag = None, TextElement.angle = None,
                    TextElement.points = [(7, 8)], string = ByteString ''M1''\<rparr>), [])"
proof -
  have mag: "tag (real_record MAG 2) \<in> {MAG, ANGLE}"
    by (simp add: real_record_def)
  show ?thesis
    using mag
      transform_block_needs_strans
        [where x = "real_record MAG 2" and pts_sref = "[(7, 8)]" and pts_text = "[(7, 8)]"
           and sd = "ByteString []" and de = "ByteString []" and fl = None and px = None
           and name = "''CELL_A''" and l = 5 and tt = 0 and pres = None and pt = None
           and w = None and s = "IntegerList [0]" and str = "''M1''" and rest = "[]"
           and rs = "[xy_record [(7, 8)], \<lparr>tag = ENDEL, data = ByteString []\<rparr>]"]
    by simp
qed

text \<open>
  C8. The claim: a STRANS record followed by neither MAG nor ANGLE is accepted and decoding
  succeeds. The transform block is parsed as the claim says (above), but decoding succeeds
  only on a stream with no property record. A StructureRef with a STRANS record alone, one
  point and one property pair (key 1, value x) before the end marker makes load fail with
  the TypeError of \<^verbatim>\<open>_read_rest\<close>.
\<close>

theorem sref_strans_alone_with_property_pair_raises_TypeError:
  "load \<lparr>tag = SREF, data = ByteString []\<rparr>
     (sref_stream ''CELL_A'' (Some (IntegerList [0], None, None)) [(7, 8)]
      @ [\<lparr>tag = PROPATTR, data = IntegerList [1]\<rparr>,
         \<lparr>tag = PROPVALUE, data = ByteString ''x''\<rparr>,
         \<lparr>tag = ENDEL, data = ByteString []\<rparr>])
   = (Inl TypeError,
      [\<lparr>tag = PROPVALUE, data = ByteString ''x''\<rparr>, \<lparr>tag = ENDEL, data = ByteString []\<rparr>])"
proof -
  have "load \<lparr>tag = SREF, data = ByteString []\<rparr>
     (common_prefix None None
      @ sref_stream ''CELL_A'' (Some (IntegerList [0], None, None)) [(7, 8)]
      @ [\<lparr>tag = PROPATTR, data = IntegerList [1]\<rparr>,
         \<lparr>tag = PROPVALUE, data = ByteString ''x''\<rparr>,
         \<lparr>tag = ENDEL, data = ByteString []\<rparr>])
   = (Inl TypeError,
      [\<lparr>tag = PROPVALUE, data = ByteString ''x''\<rparr>, \<lparr>tag = ENDEL, data = ByteString []\<rparr>])"
    by (simp add: load_def tag_to_class_map_def truth_value_def init_no_kwargs
        SRefElement_read_element_stream Let_def read_rest_PROPATTR_def next_of_record_def
        exn_simps rec_simps)
  then show ?thesis
    by (simp add: common_prefix_def opt_record_def)
qed

end
